theory Spec2Isabelle
  imports Complex_Main
begin

section \<open>Values, exceptions and data frames\<close>

text \<open>
  The program is a pandas pipeline. A cell of a data frame is a 64-bit integer, a 64-bit
  float, a string, a list (before \<open>explode\<close>; the tuple of a multi-level index label is
  written as a list too) or a missing value: \<open>FloatNaN\<close> is the missing value of a
  float64 column, \<open>NaN\<close> the missing value among the Python objects of an object
  column. The float of a rating is carried by the real number it denotes: the program
  only stores and compares ratings.
\<close>

datatype cell = NaN | FloatNaN | IntV int | FloatV real | StrV string | ListV "cell list"

text \<open>The exceptions the modelled code and its libraries raise, by their Python class.\<close>

datatype error =
    KeyError "string list"
  | ValueError
  | TypeError
  | IndexError
  | FileNotFoundError
  | OperationalError

fun exception_class :: "error \<Rightarrow> string" where
  "exception_class (KeyError ks) = ''KeyError''"
| "exception_class ValueError = ''ValueError''"
| "exception_class TypeError = ''TypeError''"
| "exception_class IndexError = ''IndexError''"
| "exception_class FileNotFoundError = ''FileNotFoundError''"
| "exception_class OperationalError = ''OperationalError''"

text \<open>
  The index of a frame is an \<open>Index\<close> of one level, with its name if it has one, or a
  \<open>MultiIndex\<close> with the names of its levels. The index the program's own frames have
  is \<open>Index None\<close>.
\<close>

datatype index = Index "string option" | MultiIndex "string option list"

text \<open>
  A row maps column labels to cells; a frame lists its column labels, its rows, each row
  with its index label (for a \<open>MultiIndex\<close> the list of the level values), and its
  index. The frames of this model have unique column labels.
\<close>

type_synonym row = "string \<Rightarrow> cell"

record frame =
  columns :: "string list"
  rows :: "(cell \<times> row) list"
  index :: index

text \<open>Sequencing of computations that may raise: the first exception ends the run.\<close>

definition and_then :: "error + 'a \<Rightarrow> ('a \<Rightarrow> error + 'b) \<Rightarrow> error + 'b" where
  "and_then m f = (case m of Inl e \<Rightarrow> Inl e | Inr x \<Rightarrow> f x)"

fun traverse :: "('a \<Rightarrow> error + 'b) \<Rightarrow> 'a list \<Rightarrow> error + 'b list" where
  "traverse f [] = Inr []"
| "traverse f (x # xs) =
     (case f x of
        Inl e \<Rightarrow> Inl e
      | Inr y \<Rightarrow> (case traverse f xs of Inl e \<Rightarrow> Inl e | Inr ys \<Rightarrow> Inr (y # ys)))"

definition range_index :: "nat \<Rightarrow> cell list" where
  "range_index n = map (\<lambda>k. IntV (int k)) [0..<n]"

subsection \<open>The raw records of the input document\<close>

text \<open>
  A movie of \<open>top_movies\<close>: each key may be absent; \<open>genre\<close> and \<open>cast\<close> hold a
  string or a list of strings, \<open>year\<close> an integer in the 64-bit range, \<open>rating\<close> a
  number.
\<close>

datatype items = Scalar string | Items "string list"

record movie =
  title :: "string option"
  year :: "int option"
  rating :: "real option"
  synopsis :: "string option"
  director :: "string option"
  genre :: "items option"
  cast :: "items option"

definition record_keys :: "movie \<Rightarrow> string list" where
  "record_keys m =
     (if title m = None then [] else [''title'']) @
     (if year m = None then [] else [''year'']) @
     (if rating m = None then [] else [''rating'']) @
     (if synopsis m = None then [] else [''synopsis'']) @
     (if director m = None then [] else [''director'']) @
     (if genre m = None then [] else [''genre'']) @
     (if cast m = None then [] else [''cast''])"

definition str_cell :: "string option \<Rightarrow> cell" where
  "str_cell v = (case v of None \<Rightarrow> NaN | Some s \<Rightarrow> StrV s)"

definition items_cell :: "items option \<Rightarrow> cell" where
  "items_cell v =
     (case v of None \<Rightarrow> NaN | Some (Scalar s) \<Rightarrow> StrV s | Some (Items xs) \<Rightarrow> ListV (map StrV xs))"

text \<open>
  The \<open>year\<close> column is an int64 column when every record has a year; one missing year
  makes it a float64 column, whose present years are floats. The \<open>rating\<close> column is a
  float64 column.
\<close>

definition year_cell :: "bool \<Rightarrow> int option \<Rightarrow> cell" where
  "year_cell int64 v =
     (case v of None \<Rightarrow> FloatNaN | Some y \<Rightarrow> if int64 then IntV y else FloatV (of_int y))"

definition rating_cell :: "real option \<Rightarrow> cell" where
  "rating_cell v = (case v of None \<Rightarrow> FloatNaN | Some x \<Rightarrow> FloatV x)"

definition record_row :: "bool \<Rightarrow> movie \<Rightarrow> row" where
  "record_row int64 m =
     (\<lambda>c. NaN)
       (''title'' := str_cell (title m),
        ''year'' := year_cell int64 (year m),
        ''rating'' := rating_cell (rating m),
        ''synopsis'' := str_cell (synopsis m),
        ''director'' := str_cell (director m),
        ''genre'' := items_cell (genre m),
        ''cast'' := items_cell (cast m))"

text \<open>
  \<open>pd.json_normalize\<close> of the list of records: one row per record, labelled
  \<open>0, 1, ...\<close>; a column for every key some record has, \<open>NaN\<close> where a record lacks
  the key. No record gives a frame without columns.
\<close>

definition json_normalize :: "movie list \<Rightarrow> frame" where
  "json_normalize ms =
     \<lparr>columns =
        filter (\<lambda>c. list_ex (\<lambda>m. c \<in> set (record_keys m)) ms)
          [''title'', ''year'', ''rating'', ''synopsis'', ''director'', ''genre'', ''cast''],
      rows =
        zip (range_index (length ms))
          (map (record_row (list_all (\<lambda>m. year m \<noteq> None) ms)) ms),
      index = Index None\<rparr>"

subsection \<open>Frame operations of the loader\<close>

text \<open>
  \<open>df.explode(c)\<close>: a row whose cell is a non-empty list becomes one row per element,
  all with the index label of the row; an empty list becomes one row with \<open>NaN\<close>; any
  other cell leaves the row as it is. A column that does not exist is a \<open>KeyError\<close>.
\<close>

fun explode_cell :: "cell \<Rightarrow> cell list" where
  "explode_cell (ListV []) = [NaN]"
| "explode_cell (ListV (x # xs)) = x # xs"
| "explode_cell v = [v]"

definition explode_row :: "string \<Rightarrow> cell \<times> row \<Rightarrow> (cell \<times> row) list" where
  "explode_row c ir = map (\<lambda>v. (fst ir, (snd ir)(c := v))) (explode_cell (snd ir c))"

definition explode :: "frame \<Rightarrow> string \<Rightarrow> error + frame" where
  "explode df c =
     (if c \<in> set (columns df)
      then Inr (df\<lparr>rows := concat (map (explode_row c) (rows df))\<rparr>)
      else Inl (KeyError [c]))"

text \<open>
  \<open>df[new] = df[src].apply(f)\<close> and \<open>df[new] = f(df[src])\<close> for an elementwise
  \<open>f\<close>: the new cells are computed from the cells of \<open>src\<close> row by row (the series
  has the frame's own index, so the assignment is by position); the first cell on which
  \<open>f\<close> raises ends the statement. The column is added last when it is new.
\<close>

definition assign :: "frame \<Rightarrow> string \<Rightarrow> string \<Rightarrow> (cell \<Rightarrow> error + cell) \<Rightarrow> error + frame" where
  "assign df new src f =
     (if src \<in> set (columns df)
      then
        (case traverse
                (\<lambda>ir. case f (snd ir src) of
                         Inl e \<Rightarrow> Inl e
                       | Inr v \<Rightarrow> Inr (fst ir, (snd ir)(new := v)))
                (rows df) of
           Inl e \<Rightarrow> Inl e
         | Inr rs \<Rightarrow>
             Inr (df\<lparr>columns := (if new \<in> set (columns df) then columns df else columns df @ [new]),
                     rows := rs\<rparr>))
      else Inl (KeyError [src]))"

text \<open>Line 14: \<open>lambda x: x[0] if isinstance(x, list) else x\<close>.\<close>

fun first_if_list :: "cell \<Rightarrow> error + cell" where
  "first_if_list (ListV []) = Inl IndexError"
| "first_if_list (ListV (x # xs)) = Inr x"
| "first_if_list v = Inr v"

text \<open>Decimal digits of a natural number and of an integer, as Python's \<open>str\<close> prints them.\<close>

fun str_nat :: "nat \<Rightarrow> string" where
  "str_nat n = (if n < 10 then [char_of (48 + n)] else str_nat (n div 10) @ [char_of (48 + n mod 10)])"

definition str_int :: "int \<Rightarrow> string" where
  "str_int i = (if i < 0 then CHR ''-'' # str_nat (nat (- i)) else str_nat (nat i))"

text \<open>
  \<open>str\<close> of a float with an integral value of magnitude below \<open>1e16\<close>: the digits
  followed by \<open>.0\<close>. (Larger magnitudes print with an exponent; the year floats of
  this model stay far below.)
\<close>

definition str_float :: "real \<Rightarrow> string" where
  "str_float x = str_int \<lfloor>x\<rfloor> @ ''.0''"

text \<open>Arithmetic of an int64 array wraps around.\<close>

definition wrap64 :: "int \<Rightarrow> int" where
  "wrap64 i = (i + 2 ^ 63) mod 2 ^ 64 - 2 ^ 63"

text \<open>
  Line 15, on one cell of \<open>year\<close>: \<open>(year // 10 * 10).astype(str) + 's'\<close>. Floor
  division and multiplication keep a missing value missing, and \<open>astype(str)\<close> prints
  it as \<open>nan\<close>; on a string or a list \<open>//\<close> raises \<open>TypeError\<close>.
\<close>

fun decade_of :: "cell \<Rightarrow> error + cell" where
  "decade_of NaN = Inr (StrV (''nan'' @ ''s''))"
| "decade_of FloatNaN = Inr (StrV (''nan'' @ ''s''))"
| "decade_of (IntV y) = Inr (StrV (str_int (wrap64 (y div 10 * 10)) @ ''s''))"
| "decade_of (FloatV x) = Inr (StrV (str_float (of_int \<lfloor>x / 10\<rfloor> * 10) @ ''s''))"
| "decade_of (StrV s) = Inl TypeError"
| "decade_of (ListV xs) = Inl TypeError"

text \<open>
  \<open>df.fillna(0, inplace=True)\<close>: every missing cell of every column becomes 0, which
  in a float64 column is the float \<open>0.0\<close> and among the objects of an object column the
  integer \<open>0\<close>.
\<close>

definition fill_cell :: "cell \<Rightarrow> cell" where
  "fill_cell v = (if v = NaN then IntV 0 else if v = FloatNaN then FloatV 0 else v)"

definition fillna0 :: "frame \<Rightarrow> frame" where
  "fillna0 df = df\<lparr>rows := map (\<lambda>ir. (fst ir, (\<lambda>c. fill_cell (snd ir c)))) (rows df)\<rparr>"

text \<open>
  \<open>astype(np.int64)\<close> and \<open>astype(np.float64)\<close> on one cell of a numeric column. A
  float is truncated towards zero. A missing value cannot become an integer. Strings and
  lists do not occur in \<open>year\<close> and \<open>rating\<close> for the documents of this model; they
  are given the exception a value that is not a number raises.
\<close>

fun astype_int64 :: "cell \<Rightarrow> error + cell" where
  "astype_int64 (IntV y) = Inr (IntV y)"
| "astype_int64 (FloatV x) = Inr (IntV (if 0 \<le> x then \<lfloor>x\<rfloor> else \<lceil>x\<rceil>))"
| "astype_int64 NaN = Inl ValueError"
| "astype_int64 FloatNaN = Inl ValueError"
| "astype_int64 (StrV s) = Inl ValueError"
| "astype_int64 (ListV xs) = Inl TypeError"

fun astype_float64 :: "cell \<Rightarrow> error + cell" where
  "astype_float64 (IntV y) = Inr (FloatV (of_int y))"
| "astype_float64 (FloatV x) = Inr (FloatV x)"
| "astype_float64 NaN = Inr FloatNaN"
| "astype_float64 FloatNaN = Inr FloatNaN"
| "astype_float64 (StrV s) = Inl ValueError"
| "astype_float64 (ListV xs) = Inl TypeError"

text \<open>\<open>df.reset_index(drop=True)\<close>: the rows keep their order and are labelled anew.\<close>

definition reset_index_drop :: "frame \<Rightarrow> frame" where
  "reset_index_drop df =
     df\<lparr>rows := zip (range_index (length (rows df))) (map snd (rows df)), index := Index None\<rparr>"

section \<open>The world outside the program\<close>

text \<open>
  What the program prints, which components it has entered, and what the database holds.
  The libraries it calls (the file system and JSON parser behind \<open>pd.read_json\<close>,
  matplotlib, SQLAlchemy) are parameters: \<open>env\<close> says what each call does.
\<close>

datatype stage = Load | Visualize | Prepare | Setup | Export

datatype line = Erro string error | Info string

record world =
  stdout :: "line list"
  calls :: "stage list"
  schema :: "string list"
  database :: "(string \<times> frame) list"

record env =
  read_json :: "string \<Rightarrow> error + (string \<times> movie list) list"
  render :: "frame \<Rightarrow> error option"
  create_engine :: "string \<Rightarrow> error option"
  create_all :: "string \<Rightarrow> error option"
  to_sql :: "string \<Rightarrow> frame \<Rightarrow> error option"

definition enter :: "stage \<Rightarrow> world \<Rightarrow> world" where
  "enter s w = w\<lparr>calls := calls w @ [s]\<rparr>"

definition print :: "line \<Rightarrow> world \<Rightarrow> world" where
  "print l w = w\<lparr>stdout := stdout w @ [l]\<rparr>"

text \<open>
  Every component is \<open>try: ... except Exception as e: print(f"<message>: {e}"); raise\<close>:
  the exception is printed and raised again, unchanged.
\<close>

definition except_print_raise :: "string \<Rightarrow> error + 'a \<Rightarrow> world \<Rightarrow> (error + 'a) \<times> world" where
  "except_print_raise msg res w =
     (case res of Inl e \<Rightarrow> (Inl e, print (Erro msg e) w) | Inr x \<Rightarrow> (Inr x, w))"

section \<open>\<open>load_and_preprocess_data\<close>\<close>

text \<open>Lines 13 to 19, on the frame of line 11.\<close>

definition flatten :: "frame \<Rightarrow> error + frame" where
  "flatten df0 =
     and_then (explode df0 ''genre'') (\<lambda>df1.
     and_then (explode df1 ''cast'') (\<lambda>df2.
     and_then (assign df2 ''main_genre'' ''genre'' first_if_list) (\<lambda>df3.
     and_then (assign df3 ''decade'' ''year'' decade_of) (\<lambda>df4.
     and_then (assign (fillna0 df4) ''year'' ''year'' astype_int64) (\<lambda>df5.
     assign df5 ''rating'' ''rating'' astype_float64)))))"

text \<open>\<open>json_data['top_movies']\<close> on the frame \<open>pd.read_json\<close> returns.\<close>

definition top_movies :: "(string \<times> movie list) list \<Rightarrow> error + movie list" where
  "top_movies json_data =
     (case map_of json_data ''top_movies'' of
        None \<Rightarrow> Inl (KeyError [''top_movies''])
      | Some ms \<Rightarrow> Inr ms)"

text \<open>
  Lines 11 to 19 on the list of records: the flattened table before its rows are
  labelled anew. Each row still has the position of its record as its index label.
\<close>

definition preprocess :: "movie list \<Rightarrow> error + frame" where
  "preprocess ms = flatten (json_normalize ms)"

definition load_and_preprocess_data :: "env \<Rightarrow> string \<Rightarrow> world \<Rightarrow> (error + frame) \<times> world" where
  "load_and_preprocess_data ev file_path w =
     except_print_raise ''Erro ao carregar dados''
       (and_then (read_json ev file_path) (\<lambda>json_data.
        and_then (top_movies json_data) (\<lambda>ms.
        and_then (preprocess ms) (\<lambda>df.
        Inr (reset_index_drop df)))))
       (enter Load w)"

section \<open>\<open>create_visualizations\<close>\<close>

text \<open>
  The aggregates are local values nobody reads; what the rest of the program can see is
  whether the function raises. Looking up a column that is missing is a \<open>KeyError\<close>;
  the aggregation and plotting calls themselves are the library's (\<open>render\<close>).
\<close>

definition column :: "frame \<Rightarrow> string \<Rightarrow> error + cell list" where
  "column df c =
     (if c \<in> set (columns df) then Inr (map (\<lambda>ir. snd ir c) (rows df)) else Inl (KeyError [c]))"

definition create_visualizations :: "env \<Rightarrow> frame \<Rightarrow> world \<Rightarrow> (error + unit) \<times> world" where
  "create_visualizations ev df w =
     except_print_raise
       (''Erro ao criar visualiza'' @ [CHR 0xC3, CHR 0xA7, CHR 0xC3, CHR 0xB5] @ ''es'')
       (and_then (column df ''decade'') (\<lambda>decade.
        and_then (column df ''rating'') (\<lambda>rating.
        and_then (column df ''director'') (\<lambda>director.
        and_then (column df ''cast'') (\<lambda>cast.
        and_then (column df ''title'') (\<lambda>title.
        (case render ev df of Some e \<Rightarrow> Inl e | None \<Rightarrow> Inr ())))))))
       (enter Visualize w)"

section \<open>\<open>prepare_database_tables\<close>\<close>

text \<open>\<open>df[[c1, c2, ...]]\<close>: the listed columns, or a \<open>KeyError\<close> naming the missing ones.\<close>

definition select :: "frame \<Rightarrow> string list \<Rightarrow> error + frame" where
  "select df cs =
     (if filter (\<lambda>c. c \<notin> set (columns df)) cs = []
      then Inr (df\<lparr>columns := cs\<rparr>)
      else Inl (KeyError (filter (\<lambda>c. c \<notin> set (columns df)) cs)))"

text \<open>
  Deduplication keeps the first occurrence of each key, scanning with the set of keys
  seen so far. A list cannot be hashed: \<open>TypeError\<close>.
\<close>

fun first_seen :: "'k list \<Rightarrow> ('a \<Rightarrow> 'k) \<Rightarrow> 'a list \<Rightarrow> 'a list" where
  "first_seen seen key [] = []"
| "first_seen seen key (x # xs) =
     (if key x \<in> set seen then first_seen seen key xs
      else x # first_seen (key x # seen) key xs)"

fun is_list :: "cell \<Rightarrow> bool" where
  "is_list (ListV xs) = True"
| "is_list v = False"

definition row_values :: "frame \<Rightarrow> cell \<times> row \<Rightarrow> cell list" where
  "row_values df ir = map (snd ir) (columns df)"

definition drop_duplicates :: "frame \<Rightarrow> error + frame" where
  "drop_duplicates df =
     (if list_ex (\<lambda>ir. list_ex is_list (row_values df ir)) (rows df) then Inl TypeError
      else Inr (df\<lparr>rows := first_seen [] (row_values df) (rows df)\<rparr>))"

definition unique :: "cell list \<Rightarrow> error + cell list" where
  "unique vs = (if list_ex is_list vs then Inl TypeError else Inr (first_seen [] (\<lambda>v. v) vs))"

text \<open>\<open>pd.DataFrame(values, columns=[c])\<close>.\<close>

definition DataFrame :: "cell list \<Rightarrow> string \<Rightarrow> frame" where
  "DataFrame vs c =
     \<lparr>columns = [c], rows = zip (range_index (length vs)) (map (\<lambda>v. (\<lambda>k. NaN)(c := v)) vs),
      index = Index None\<rparr>"

text \<open>
  \<open>df.reset_index()\<close>: the levels of the index become the first columns and the rows
  are labelled anew. A level is inserted under its name; an unnamed level of a
  \<open>MultiIndex\<close> under \<open>level_i\<close>, the unnamed \<open>Index\<close> under \<open>index\<close> (\<open>level_0\<close>
  when \<open>index\<close> is a column). Inserting a label that is already there is a
  \<open>ValueError\<close>.
\<close>

definition level_names :: "frame \<Rightarrow> string list" where
  "level_names df =
     (case index df of
        Index None \<Rightarrow> [if ''index'' \<in> set (columns df) then ''level_0'' else ''index'']
      | Index (Some n) \<Rightarrow> [n]
      | MultiIndex ns \<Rightarrow>
          map (\<lambda>kn. case snd kn of None \<Rightarrow> ''level_'' @ str_nat (fst kn) | Some n \<Rightarrow> n)
            (zip [0..<length ns] ns))"

definition level_values :: "index \<Rightarrow> cell \<Rightarrow> cell list" where
  "level_values ix label =
     (case ix of
        Index n \<Rightarrow> [label]
      | MultiIndex ns \<Rightarrow> (case label of ListV vs \<Rightarrow> vs | v \<Rightarrow> [v]))"

definition insert_levels :: "frame \<Rightarrow> cell \<times> row \<Rightarrow> row" where
  "insert_levels df ir =
     fold (\<lambda>nv r. r(fst nv := snd nv)) (zip (level_names df) (level_values (index df) (fst ir)))
       (snd ir)"

definition reset_index :: "frame \<Rightarrow> error + frame" where
  "reset_index df =
     (if \<not> distinct (level_names df) \<or> list_ex (\<lambda>n. n \<in> set (columns df)) (level_names df)
      then Inl ValueError
      else Inr \<lparr>columns = level_names df @ columns df,
                rows = zip (range_index (length (rows df))) (map (insert_levels df) (rows df)),
                index = Index None\<rparr>)"

text \<open>
  \<open>df.rename(columns={old: new})\<close>; a label that is not a column is ignored. (Where
  \<open>new\<close> is a column already the result has the label twice, and the rows of this
  model keep the cells of the renamed column under it.)
\<close>

definition rename :: "frame \<Rightarrow> string \<Rightarrow> string \<Rightarrow> frame" where
  "rename df old new =
     (if old \<in> set (columns df)
      then df\<lparr>columns := map (\<lambda>c. if c = old then new else c) (columns df),
              rows := map (\<lambda>ir. (fst ir, (snd ir)(new := snd ir old))) (rows df)\<rparr>
      else df)"

text \<open>
  \<open>left.merge(right, left_on=lk, right_on=rk, how='left')\<close> with \<open>lk \<noteq> rk\<close>. The keys
  are looked up first, the right one before the left one. The result has the columns of
  both frames; a label both frames have gets the suffix \<open>_x\<close> on the left and \<open>_y\<close> on
  the right. Every left row is paired with the right rows of the same key, in order, or
  with missing values when there is none; the rows are labelled anew. Where the program
  merges, both frames have the unnamed index (each is a result of \<open>reset_index\<close>), so
  a key can only name a column.
\<close>

definition suffixed :: "string \<Rightarrow> string list \<Rightarrow> string list \<Rightarrow> string list" where
  "suffixed sfx own other = map (\<lambda>c. if c \<in> set other then c @ sfx else c) own"

definition merged_row :: "frame \<Rightarrow> frame \<Rightarrow> row \<Rightarrow> row \<Rightarrow> row" where
  "merged_row l r a b =
     (\<lambda>c. case map_of
               (zip (suffixed ''_x'' (columns l) (columns r)) (map a (columns l)) @
                zip (suffixed ''_y'' (columns r) (columns l)) (map b (columns r))) c of
             Some v \<Rightarrow> v
           | None \<Rightarrow> NaN)"

definition matches :: "frame \<Rightarrow> frame \<Rightarrow> string \<Rightarrow> string \<Rightarrow> cell \<times> row \<Rightarrow> row list" where
  "matches l r lk rk lrow =
     (if filter (\<lambda>rrow. snd rrow rk = snd lrow lk) (rows r) = []
      then [merged_row l r (snd lrow) (\<lambda>c. NaN)]
      else map (\<lambda>rrow. merged_row l r (snd lrow) (snd rrow))
             (filter (\<lambda>rrow. snd rrow rk = snd lrow lk) (rows r)))"

definition merge_left :: "frame \<Rightarrow> frame \<Rightarrow> string \<Rightarrow> string \<Rightarrow> error + frame" where
  "merge_left l r lk rk =
     (if rk \<notin> set (columns r) then Inl (KeyError [rk])
      else if lk \<notin> set (columns l) then Inl (KeyError [lk])
      else
        Inr \<lparr>columns = suffixed ''_x'' (columns l) (columns r) @ suffixed ''_y'' (columns r) (columns l),
             rows = zip (range_index (length (concat (map (matches l r lk rk) (rows l)))))
                      (concat (map (matches l r lk rk) (rows l))),
             index = Index None\<rparr>)"

text \<open>Lines 53 to 58.\<close>

definition movies_table :: "frame \<Rightarrow> error + frame" where
  "movies_table df =
     and_then (select df [''title'', ''year'', ''rating'', ''synopsis'']) (\<lambda>d1.
     and_then (drop_duplicates d1) (\<lambda>d2.
     and_then (reset_index d2) (\<lambda>d3.
     Inr (rename d3 ''index'' ''id''))))"

text \<open>Lines 60 to 64 and 66 to 70.\<close>

definition names_table :: "frame \<Rightarrow> string \<Rightarrow> error + frame" where
  "names_table df c =
     and_then (column df c) (\<lambda>vs.
     and_then (unique vs) (\<lambda>us.
     and_then (reset_index (DataFrame us ''name'')) (\<lambda>d.
     Inr (rename d ''index'' ''id''))))"

definition directors_table :: "frame \<Rightarrow> error + frame" where
  "directors_table df = names_table df ''director''"

definition genres_table :: "frame \<Rightarrow> error + frame" where
  "genres_table df = names_table df ''genre''"

text \<open>Lines 72 to 79.\<close>

definition movie_director :: "frame \<Rightarrow> frame \<Rightarrow> error + frame" where
  "movie_director df directors =
     and_then (select df [''title'']) (\<lambda>d1.
     and_then (reset_index d1) (\<lambda>d2.
     and_then (merge_left d2 directors ''director'' ''name'') (\<lambda>d3.
     and_then (select d3 [''index'', ''id_y'']) (\<lambda>d4.
     drop_duplicates (rename (rename d4 ''index'' ''movie_id'') ''id_y'' ''director_id'')))))"

text \<open>Lines 81 to 88.\<close>

definition movie_genre :: "frame \<Rightarrow> frame \<Rightarrow> error + frame" where
  "movie_genre df genres =
     and_then (select df [''title'', ''genre'']) (\<lambda>d1.
     and_then (reset_index d1) (\<lambda>d2.
     and_then (merge_left d2 genres ''genre'' ''name'') (\<lambda>d3.
     and_then (select d3 [''index'', ''id_y'']) (\<lambda>d4.
     drop_duplicates (rename (rename d4 ''index'' ''movie_id'') ''id_y'' ''genre_id'')))))"

type_synonym tables = "frame \<times> frame \<times> frame \<times> frame \<times> frame"

definition build_tables :: "frame \<Rightarrow> error + tables" where
  "build_tables df =
     and_then (movies_table df) (\<lambda>movies.
     and_then (directors_table df) (\<lambda>directors.
     and_then (genres_table df) (\<lambda>genres.
     and_then (movie_director df directors) (\<lambda>m_director.
     and_then (movie_genre df genres) (\<lambda>m_genre.
     Inr (movies, directors, genres, m_director, m_genre))))))"

definition prepare_database_tables :: "frame \<Rightarrow> world \<Rightarrow> (error + tables) \<times> world" where
  "prepare_database_tables df w =
     except_print_raise ''Erro ao preparar tabelas'' (build_tables df) (enter Prepare w)"

section \<open>\<open>setup_database_engine\<close> and \<open>export_to_database\<close>\<close>

text \<open>The five tables of the schema: name and columns.\<close>

definition metadata :: "(string \<times> string list) list" where
  "metadata =
     [(''movies'', [''id'', ''title'', ''year'', ''rating'', ''synopsis'']),
      (''directors'', [''id'', ''name'']),
      (''genres'', [''id'', ''name'']),
      (''movie_director'', [''movie_id'', ''director_id'']),
      (''movie_genre'', [''movie_id'', ''genre_id''])]"

definition setup_database_engine ::
  "env \<Rightarrow> string \<Rightarrow> world \<Rightarrow> (error + string \<times> (string \<times> string list) list) \<times> world" where
  "setup_database_engine ev db_name w =
     except_print_raise ''Erro ao configurar banco de dados''
       (case create_engine ev (''sqlite:///'' @ db_name) of
          Some e \<Rightarrow> Inl e
        | None \<Rightarrow> Inr (''sqlite:///'' @ db_name, metadata))
       (enter Setup w)"

text \<open>
  The loop of lines 143 and 144: each table is appended in turn; the first failing
  \<open>to_sql\<close> ends the loop and leaves what was written before it.
\<close>

fun to_sql_all :: "env \<Rightarrow> (string \<times> frame) list \<Rightarrow> world \<Rightarrow> (error + unit) \<times> world" where
  "to_sql_all ev [] w = (Inr (), w)"
| "to_sql_all ev (t # ts) w =
     (case to_sql ev (fst t) (snd t) of
        Some e \<Rightarrow> (Inl e, w)
      | None \<Rightarrow> to_sql_all ev ts (w\<lparr>database := database w @ [t]\<rparr>))"

definition export_to_database ::
  "env \<Rightarrow> string \<Rightarrow> (string \<times> string list) list \<Rightarrow> (string \<times> frame) list \<Rightarrow> world
     \<Rightarrow> (error + unit) \<times> world" where
  "export_to_database ev engine md tbls w =
     (case create_all ev engine of
        Some e \<Rightarrow>
          except_print_raise ''Erro ao exportar para o banco de dados'' (Inl e) (enter Export w)
      | None \<Rightarrow>
          (case to_sql_all ev tbls
                  ((enter Export w)
                     \<lparr>schema := schema w @ filter (\<lambda>t. t \<notin> set (schema w)) (map fst md)\<rparr>) of
             (Inl e, w') \<Rightarrow>
               except_print_raise ''Erro ao exportar para o banco de dados'' (Inl e) w'
           | (Inr u, w') \<Rightarrow>
               (Inr (), print (Info ''Dados exportados com sucesso para o banco de dados!'') w')))"

section \<open>\<open>main\<close>\<close>

text \<open>
  The body of the \<open>try\<close> of lines 155 to 170: the components in sequence, each result
  feeding the next; an exception of a component ends the body.
\<close>

definition pipeline :: "env \<Rightarrow> world \<Rightarrow> (error + unit) \<times> world" where
  "pipeline ev w =
     (case load_and_preprocess_data ev ''dataset/movies.json'' w of
        (Inl e, w1) \<Rightarrow> (Inl e, w1)
      | (Inr df, w1) \<Rightarrow>
     (case create_visualizations ev df w1 of
        (Inl e, w2) \<Rightarrow> (Inl e, w2)
      | (Inr u, w2) \<Rightarrow>
     (case prepare_database_tables df w2 of
        (Inl e, w3) \<Rightarrow> (Inl e, w3)
      | (Inr (movies, directors, genres, m_director, m_genre), w3) \<Rightarrow>
     (case setup_database_engine ev ''cinemalytics.db'' w3 of
        (Inl e, w4) \<Rightarrow> (Inl e, w4)
      | (Inr (engine, md), w4) \<Rightarrow>
          export_to_database ev engine md
            [(''movies'', movies), (''directors'', directors), (''genres'', genres),
             (''movie_director'', m_director), (''movie_genre'', m_genre)]
            w4))))"

text \<open>
  Lines 172 and 173: \<open>except Exception as e: print(f"Erro na execu\<dots>: {e}")\<close>, with no
  \<open>raise\<close>. The result of \<open>main\<close> says whether an exception leaves it.
\<close>

definition main :: "env \<Rightarrow> world \<Rightarrow> (error + unit) \<times> world" where
  "main ev w =
     (case pipeline ev w of
        (Inl e, w') \<Rightarrow>
          (Inr (),
           print (Erro (''Erro na execu'' @ [CHR 0xC3, CHR 0xA7, CHR 0xC3, CHR 0xA3] @ ''o'') e) w')
      | (Inr u, w') \<Rightarrow> (Inr (), w'))"

section \<open>Notions used in the statements\<close>

text \<open>The rows after line 13, and the number of rows one field explodes into.\<close>

definition exploded :: "frame \<Rightarrow> (cell \<times> row) list" where
  "exploded df0 = concat (map (explode_row ''cast'') (concat (map (explode_row ''genre'') (rows df0))))"

definition exploded_count :: "items option \<Rightarrow> nat" where
  "exploded_count v = (case v of Some (Items (x # xs)) \<Rightarrow> length (x # xs) | _ \<Rightarrow> 1)"

text \<open>
  The count the specification states: Python's \<open>len\<close> of each field, multiplied and
  summed over the records.
\<close>

definition len :: "items option \<Rightarrow> nat" where
  "len v = (case v of None \<Rightarrow> 0 | Some (Scalar s) \<Rightarrow> length s | Some (Items xs) \<Rightarrow> length xs)"

definition stated_row_count :: "movie list \<Rightarrow> nat" where
  "stated_row_count ms = (\<Sum>m\<leftarrow>ms. len (genre m) * len (cast m))"

text \<open>Whether a level of the index has the given name.\<close>

fun has_level :: "index \<Rightarrow> string \<Rightarrow> bool" where
  "has_level (Index None) s = False"
| "has_level (Index (Some n)) s = (n = s)"
| "has_level (MultiIndex ns) s = (Some s \<in> set ns)"

text \<open>The key of the movies table.\<close>

definition movie_key :: "cell \<times> row \<Rightarrow> cell list" where
  "movie_key ir = map (snd ir) [''title'', ''year'', ''rating'', ''synopsis'']"

text \<open>The positions of the rows whose key no earlier row has.\<close>

definition first_rows :: "(cell \<times> row) list \<Rightarrow> nat list" where
  "first_rows rs =
     filter (\<lambda>n. movie_key (rs ! n) \<notin> set (map movie_key (take n rs))) [0..<length rs]"

subsection \<open>Example inputs\<close>

text \<open>The record of the scenario of the specification.\<close>

definition scenario :: movie where
  "scenario =
     \<lparr>title = Some ''A'', year = Some 1999, rating = Some 8, synopsis = Some ''s'',
      director = Some ''D'', genre = Some (Items [''Drama'', ''Crime'']),
      cast = Some (Items [''X'', ''Y''])\<rparr>"

text \<open>
  Libraries whose calls all succeed, but for the two given: what \<open>pd.read_json\<close> does
  and what the plotting does.
\<close>

definition library :: "error + (string \<times> movie list) list \<Rightarrow> error option \<Rightarrow> env" where
  "library file plot =
     \<lparr>read_json = (\<lambda>path. file), render = (\<lambda>df. plot), create_engine = (\<lambda>url. None),
      create_all = (\<lambda>engine. None), to_sql = (\<lambda>name df. None)\<rparr>"

text \<open>A record that flattens to one row, with the given year.\<close>

definition solo :: "int option \<Rightarrow> movie" where
  "solo y = scenario\<lparr>year := y, genre := Some (Items [''Drama'']), cast := Some (Items [''X''])\<rparr>"

definition document :: "movie list \<Rightarrow> env" where
  "document ms = library (Inr [(''top_movies'', ms)]) None"

text \<open>
  A frame of one movie whose index has three levels, named \<open>index\<close>, \<open>director\<close> and
  \<open>id\<close>.
\<close>

definition named_index_frame :: frame where
  "named_index_frame =
     \<lparr>columns = [''title'', ''year'', ''rating'', ''synopsis'', ''director'', ''genre''],
      rows =
        [(ListV [IntV 0, StrV ''D'', IntV 7],
          (\<lambda>c. NaN)
            (''title'' := StrV ''A'', ''year'' := IntV 1999, ''rating'' := FloatV 8,
             ''synopsis'' := StrV ''s'', ''director'' := StrV ''D'', ''genre'' := StrV ''Drama''))],
      index = MultiIndex [Some ''index'', Some ''director'', Some ''id'']\<rparr>"

definition world0 :: world where
  "world0 = \<lparr>stdout = [], calls = [], schema = [], database = []\<rparr>"

section \<open>Exceptions and the frame operations\<close>

lemma and_then_Inl [simp]: "and_then (Inl e) f = Inl e"
  by (simp add: and_then_def)

lemma and_then_Inr [simp]: "and_then (Inr x) f = f x"
  by (simp add: and_then_def)

lemma and_then_eq_Inr: "(and_then m f = Inr y) = (\<exists>x. m = Inr x \<and> f x = Inr y)"
  by (cases m) simp_all

lemma traverse_eq_Inr:
  "(traverse f xs = Inr ys) = ((\<forall>x\<in>set xs. \<not> isl (f x)) \<and> ys = map (\<lambda>x. projr (f x)) xs)"
proof (induction xs arbitrary: ys)
  case Nil
  show ?case by auto
next
  case (Cons x xs)
  show ?case
  proof (cases "f x")
    case (Inl e)
    then show ?thesis by simp
  next
    case (Inr y)
    then show ?thesis
      using Cons.IH by (cases "traverse f xs") auto
  qed
qed

lemma explode_eq_Inr:
  "(explode df c = Inr df') =
     (c \<in> set (columns df) \<and> df' = df\<lparr>rows := concat (map (explode_row c) (rows df))\<rparr>)"
  by (auto simp: explode_def)

lemma assign_eq_Inr:
  "(assign df new src f = Inr df') =
     (src \<in> set (columns df) \<and> (\<forall>ir\<in>set (rows df). \<not> isl (f (snd ir src))) \<and>
      df' = df\<lparr>columns := (if new \<in> set (columns df) then columns df else columns df @ [new]),
               rows := map (\<lambda>ir. (fst ir, (snd ir)(new := projr (f (snd ir src))))) (rows df)\<rparr>)"
proof -
  let ?g = "\<lambda>ir. case f (snd ir src) of Inl e \<Rightarrow> Inl e | Inr v \<Rightarrow> Inr (fst ir, (snd ir)(new := v))"
  have iso: "isl (?g ir) = isl (f (snd ir src))" for ir
    by (cases "f (snd ir src)") simp_all
  have pr: "\<not> isl (f (snd ir src)) \<Longrightarrow> projr (?g ir) = (fst ir, (snd ir)(new := projr (f (snd ir src))))" for ir
    by (cases "f (snd ir src)") simp_all
  show ?thesis
  proof (cases "src \<in> set (columns df)")
    case False
    then show ?thesis by (simp add: assign_def)
  next
    case True
    show ?thesis
    proof (cases "traverse ?g (rows df)")
      case (Inl e)
      then have "\<not> (\<forall>ir\<in>set (rows df). \<not> isl (?g ir))"
        using traverse_eq_Inr [of ?g "rows df"] by auto
      then show ?thesis using True Inl by (auto simp: assign_def iso)
    next
      case (Inr rs)
      then have a: "\<forall>ir\<in>set (rows df). \<not> isl (?g ir)" and b: "rs = map (\<lambda>ir. projr (?g ir)) (rows df)"
        using traverse_eq_Inr [of ?g "rows df" rs] by auto
      have "rs = map (\<lambda>ir. (fst ir, (snd ir)(new := projr (f (snd ir src))))) (rows df)"
        unfolding b using a by (intro map_cong refl pr) (simp add: iso)
      then show ?thesis using True Inr a by (auto simp: assign_def iso)
    qed
  qed
qed

section \<open>The table builder\<close>

lemma select_eq_Inr:
  "(select df cs = Inr d) = (set cs \<subseteq> set (columns df) \<and> d = df\<lparr>columns := cs\<rparr>)"
  by (auto simp: select_def filter_empty_conv)

lemma reset_index_eq_Inr:
  "(reset_index d = Inr d') =
     (distinct (level_names d) \<and> (\<forall>n\<in>set (level_names d). n \<notin> set (columns d)) \<and>
      d' = \<lparr>columns = level_names d @ columns d,
            rows = zip (range_index (length (rows d))) (map (insert_levels d) (rows d)),
            index = Index None\<rparr>)"
  by (auto simp: reset_index_def list_ex_iff)

lemma level_names_default:
  "index d = Index None \<Longrightarrow> ''index'' \<notin> set (columns d) \<Longrightarrow> level_names d = [''index'']"
  by (simp add: level_names_def)

lemma level_names_has_level:
  assumes "s \<in> set (level_names df)" and "hd s \<noteq> CHR ''l''" and "s \<noteq> ''index''"
  shows "has_level (index df) s"
proof (cases "index df")
  case (Index n)
  then show ?thesis
    using assms by (cases n) (auto simp: level_names_def split: if_splits)
next
  case (MultiIndex ns)
  with assms(1) obtain kn where kn: "kn \<in> set (zip [0..<length ns] ns)"
    and s: "s = (case snd kn of None \<Rightarrow> ''level_'' @ str_nat (fst kn) | Some n \<Rightarrow> n)"
    by (auto simp: level_names_def)
  show ?thesis
  proof (cases "snd kn")
    case None
    then have "hd s = CHR ''l''" using s by simp
    then show ?thesis using assms(2) by simp
  next
    case (Some n)
    have "snd kn \<in> set ns"
      using kn by (metis prod.collapse set_zip_rightD)
    then show ?thesis using Some s MultiIndex by simp
  qed
qed

lemma level_names_columns:
  "(''index'' \<in> set cs) = (''index'' \<in> set cs') \<Longrightarrow>
     level_names (df\<lparr>columns := cs\<rparr>) = level_names (df\<lparr>columns := cs'\<rparr>)"
  by (simp add: level_names_def)

lemma names_table_columns:
  assumes "names_table df c = Inr g"
  shows "columns g = [''id'', ''name'']"
proof -
  from assms obtain us d where
    d: "reset_index (DataFrame us ''name'') = Inr d" and g: "g = rename d ''index'' ''id''"
    by (auto simp: names_table_def and_then_eq_Inr)
  have "level_names (DataFrame us ''name'') = [''index'']"
    by (rule level_names_default) (simp_all add: DataFrame_def)
  then have "columns d = [''index'', ''name'']"
    using d by (simp add: reset_index_eq_Inr DataFrame_def)
  then show ?thesis by (simp add: g rename_def)
qed

text \<open>
  Lines 72 to 79. Without an index level named \<open>director\<close> the frame that is merged has
  no column \<open>director\<close>.
\<close>

lemma movie_director_KeyError:
  assumes "\<not> has_level (index df) ''director''" and "''name'' \<in> set (columns directors)"
    and "select df [''title''] = Inr d1" and "reset_index d1 = Inr d2"
  shows "movie_director df directors = Inl (KeyError [''director''])"
proof -
  have d1: "d1 = df\<lparr>columns := [''title'']\<rparr>"
    using assms(3) by (simp add: select_eq_Inr)
  have c2: "columns d2 = level_names d1 @ [''title'']"
    using assms(4) by (simp add: reset_index_eq_Inr d1)
  have "''director'' \<notin> set (level_names d1)"
  proof
    assume "''director'' \<in> set (level_names d1)"
    then have "has_level (index d1) ''director''"
      by (rule level_names_has_level) simp_all
    then show False using assms(1) by (simp add: d1)
  qed
  then have "merge_left d2 directors ''director'' ''name'' = Inl (KeyError [''director''])"
    using assms(2) by (simp add: merge_left_def c2)
  then show ?thesis
    using assms(3,4) by (simp add: movie_director_def)
qed

lemma movie_director_raises:
  assumes "\<not> has_level (index df) ''director''"
  shows "\<exists>e. movie_director df directors = Inl e"
proof (cases "select df [''title'']")
  case (Inl e)
  then show ?thesis by (simp add: movie_director_def)
next
  case d1: (Inr d1)
  show ?thesis
  proof (cases "reset_index d1")
    case (Inl e)
    then show ?thesis using d1 by (simp add: movie_director_def)
  next
    case d2: (Inr d2)
    show ?thesis
    proof (cases "''name'' \<in> set (columns directors)")
      case True
      then show ?thesis using movie_director_KeyError [OF assms True d1 d2] by simp
    next
      case False
      then have "merge_left d2 directors ''director'' ''name'' = Inl (KeyError [''name''])"
        by (simp add: merge_left_def)
      then show ?thesis using d1 d2 by (simp add: movie_director_def)
    qed
  qed
qed

text \<open>
  A merge with a table of the columns \<open>id\<close> and \<open>name\<close> has a column \<open>id_y\<close> only
  when the left frame has a column \<open>id\<close> or \<open>id_y\<close>.
\<close>

lemma merge_left_no_id_y:
  assumes "columns r = [''id'', ''name'']" and "''id'' \<notin> set (columns l)"
    and "''id_y'' \<notin> set (columns l)" and "merge_left l r lk rk = Inr d"
  shows "''id_y'' \<notin> set (columns d)"
proof -
  have c: "columns d = suffixed ''_x'' (columns l) [''id'', ''name''] @
                      suffixed ''_y'' [''id'', ''name''] (columns l)"
    using assms(1,4) by (auto simp: merge_left_def split: if_splits)
  have "''id_y'' \<notin> set (suffixed ''_x'' (columns l) [''id'', ''name''])"
    using assms(3) by (auto simp: suffixed_def)
  moreover have "''id_y'' \<notin> set (suffixed ''_y'' [''id'', ''name''] (columns l))"
    using assms(2) by (simp add: suffixed_def)
  ultimately show ?thesis by (simp add: c)
qed

text \<open>Lines 81 to 88.\<close>

lemma movie_genre_KeyError:
  assumes "\<not> has_level (index df) ''id''" and "\<not> has_level (index df) ''id_y''"
    and "columns genres = [''id'', ''name'']"
    and "select df [''title'', ''genre''] = Inr d1" and "reset_index d1 = Inr d2"
  shows "\<exists>ks. movie_genre df genres = Inl (KeyError ks) \<and> ''id_y'' \<in> set ks"
proof -
  have d1: "d1 = df\<lparr>columns := [''title'', ''genre'']\<rparr>"
    using assms(4) by (simp add: select_eq_Inr)
  have c2: "columns d2 = level_names d1 @ [''title'', ''genre'']"
    using assms(5) by (simp add: reset_index_eq_Inr d1)
  have n1: "''id'' \<notin> set (level_names d1)"
  proof
    assume "''id'' \<in> set (level_names d1)"
    then have "has_level (index d1) ''id''"
      by (rule level_names_has_level) simp_all
    then show False using assms(1) by (simp add: d1)
  qed
  have n2: "''id_y'' \<notin> set (level_names d1)"
  proof
    assume "''id_y'' \<in> set (level_names d1)"
    then have "has_level (index d1) ''id_y''"
      by (rule level_names_has_level) simp_all
    then show False using assms(2) by (simp add: d1)
  qed
  obtain d3 where d3: "merge_left d2 genres ''genre'' ''name'' = Inr d3"
    by (simp add: merge_left_def c2 assms(3))
  have "''id_y'' \<notin> set (columns d3)"
    by (rule merge_left_no_id_y [OF assms(3) _ _ d3]) (simp_all add: c2 n1 n2)
  then have "\<exists>ks. select d3 [''index'', ''id_y''] = Inl (KeyError ks) \<and> ''id_y'' \<in> set ks"
    by (simp add: select_def)
  then show ?thesis
    using assms(4,5) d3 by (auto simp: movie_genre_def)
qed

lemma movie_genre_raises:
  assumes "\<not> has_level (index df) ''id''" and "\<not> has_level (index df) ''id_y''"
    and "columns genres = [''id'', ''name'']"
  shows "\<exists>e. movie_genre df genres = Inl e"
proof (cases "select df [''title'', ''genre'']")
  case (Inl e)
  then show ?thesis by (simp add: movie_genre_def)
next
  case d1: (Inr d1)
  show ?thesis
  proof (cases "reset_index d1")
    case (Inl e)
    then show ?thesis using d1 by (simp add: movie_genre_def)
  next
    case d2: (Inr d2)
    from movie_genre_KeyError [OF assms d1 d2] show ?thesis by blast
  qed
qed

text \<open>
  When the movies table is built, the projection on \<open>title\<close> and its \<open>reset_index\<close>
  succeed as well.
\<close>

lemma movies_table_title:
  assumes "movies_table df = Inr m"
  shows "\<exists>d1 d2. select df [''title''] = Inr d1 \<and> reset_index d1 = Inr d2"
proof -
  let ?K = "[''title'', ''year'', ''rating'', ''synopsis'']"
  from assms obtain k1 k2 k3 where
    k1: "select df ?K = Inr k1" and k2: "drop_duplicates k1 = Inr k2" and
    k3: "reset_index k2 = Inr k3"
    unfolding movies_table_def and_then_eq_Inr by blast
  have e1: "k1 = df\<lparr>columns := ?K\<rparr>" and t: "''title'' \<in> set (columns df)"
    using k1 by (simp_all add: select_eq_Inr)
  have e2: "columns k2 = ?K" and i2: "index k2 = index df"
    using k2 by (auto simp: drop_duplicates_def e1 split: if_splits)
  have ln: "level_names k2 = level_names (df\<lparr>columns := [''title'']\<rparr>)"
    by (simp add: level_names_def e2 i2)
  have "distinct (level_names k2)" and "\<forall>n\<in>set (level_names k2). n \<notin> set ?K"
    using k3 by (simp_all add: reset_index_eq_Inr e2)
  then have "\<exists>d2. reset_index (df\<lparr>columns := [''title'']\<rparr>) = Inr d2"
    unfolding reset_index_eq_Inr ln by simp
  then show ?thesis using t by (simp add: select_eq_Inr)
qed

lemma build_tables_raises:
  assumes "\<not> has_level (index df) ''director''"
  shows "\<exists>e. build_tables df = Inl e"
proof (cases "movies_table df")
  case (Inl e)
  then show ?thesis by (simp add: build_tables_def)
next
  case m: (Inr movies)
  show ?thesis
  proof (cases "directors_table df")
    case (Inl e)
    then show ?thesis using m by (simp add: build_tables_def)
  next
    case d: (Inr directors)
    show ?thesis
    proof (cases "genres_table df")
      case (Inl e)
      then show ?thesis using m d by (simp add: build_tables_def)
    next
      case g: (Inr genres)
      obtain e where "movie_director df directors = Inl e"
        using movie_director_raises [OF assms] by blast
      then show ?thesis using m d g by (simp add: build_tables_def)
    qed
  qed
qed

lemma build_tables_KeyError:
  assumes "\<not> has_level (index df) ''director''"
    and "movies_table df = Inr m" and "directors_table df = Inr d" and "genres_table df = Inr g"
  shows "movie_director df d = Inl (KeyError [''director''])"
    and "build_tables df = Inl (KeyError [''director''])"
proof -
  from movies_table_title [OF assms(2)] obtain d1 d2 where
    d1: "select df [''title''] = Inr d1" and d2: "reset_index d1 = Inr d2" by blast
  have "columns d = [''id'', ''name'']"
    using assms(3) by (simp add: directors_table_def names_table_columns)
  then have n: "''name'' \<in> set (columns d)" by simp
  show md: "movie_director df d = Inl (KeyError [''director''])"
    by (rule movie_director_KeyError [OF assms(1) n d1 d2])
  show "build_tables df = Inl (KeyError [''director''])"
    using assms(2-4) md by (simp add: build_tables_def)
qed

text \<open>
  Claim C2, as amended. For every frame whose index has no level named \<open>director\<close>, as
  the unnamed index of every table the loader returns, \<open>prepare_database_tables\<close> raises
  instead of returning the five tables. Where the three entity tables are built, the
  exception is the \<open>KeyError\<close> on \<open>director\<close> of the merge of \<open>movie_director\<close>: the
  projection on \<open>title\<close> with its index has no such column. The construction of
  \<open>movie_genre\<close> on the genres table raises too when no level is named \<open>id\<close> or
  \<open>id_y\<close>: where its merge is reached, the result has no column \<open>id_y\<close>, and selecting it
  is a \<open>KeyError\<close> that names \<open>id_y\<close>.
\<close>

theorem prepare_database_tables_raises:
  assumes "\<not> has_level (index df) ''director''"
  shows "(\<exists>e. fst (prepare_database_tables df w) = Inl e) \<and>
    (\<forall>m d g. movies_table df = Inr m \<and> directors_table df = Inr d \<and> genres_table df = Inr g \<longrightarrow>
       movie_director df d = Inl (KeyError [''director'']) \<and>
       fst (prepare_database_tables df w) = Inl (KeyError [''director''])) \<and>
    (\<forall>g. \<not> has_level (index df) ''id'' \<and> \<not> has_level (index df) ''id_y'' \<and>
         genres_table df = Inr g \<longrightarrow>
       (\<exists>e. movie_genre df g = Inl e) \<and>
       (\<forall>d1 d2 d3. select df [''title'', ''genre''] = Inr d1 \<and> reset_index d1 = Inr d2 \<and>
            merge_left d2 g ''genre'' ''name'' = Inr d3 \<longrightarrow>
          ''id_y'' \<notin> set (columns d3) \<and>
          (\<exists>ks. movie_genre df g = Inl (KeyError ks) \<and> ''id_y'' \<in> set ks)))"
proof -
  have a: "\<exists>e. fst (prepare_database_tables df w) = Inl e"
    using build_tables_raises [OF assms]
    by (auto simp: prepare_database_tables_def except_print_raise_def)
  have b: "movie_director df d = Inl (KeyError [''director'']) \<and>
       fst (prepare_database_tables df w) = Inl (KeyError [''director''])"
    if "movies_table df = Inr m" "directors_table df = Inr d" "genres_table df = Inr g" for m d g
    using build_tables_KeyError [OF assms that]
    by (simp add: prepare_database_tables_def except_print_raise_def)
  have c: "(\<exists>e. movie_genre df g = Inl e) \<and>
       (\<forall>d1 d2 d3. select df [''title'', ''genre''] = Inr d1 \<and> reset_index d1 = Inr d2 \<and>
            merge_left d2 g ''genre'' ''name'' = Inr d3 \<longrightarrow>
          ''id_y'' \<notin> set (columns d3) \<and>
          (\<exists>ks. movie_genre df g = Inl (KeyError ks) \<and> ''id_y'' \<in> set ks))"
    if h: "\<not> has_level (index df) ''id''" "\<not> has_level (index df) ''id_y''" "genres_table df = Inr g"
    for g
  proof -
    have cg: "columns g = [''id'', ''name'']"
      using h(3) by (simp add: genres_table_def names_table_columns)
    have "''id_y'' \<notin> set (columns d3) \<and>
          (\<exists>ks. movie_genre df g = Inl (KeyError ks) \<and> ''id_y'' \<in> set ks)"
      if s: "select df [''title'', ''genre''] = Inr d1" "reset_index d1 = Inr d2"
        "merge_left d2 g ''genre'' ''name'' = Inr d3" for d1 d2 d3
    proof -
      have d1: "d1 = df\<lparr>columns := [''title'', ''genre'']\<rparr>"
        using s(1) by (simp add: select_eq_Inr)
      have c2: "columns d2 = level_names d1 @ [''title'', ''genre'']"
        using s(2) by (simp add: reset_index_eq_Inr d1)
      have n1: "''id'' \<notin> set (level_names d1)"
      proof
        assume "''id'' \<in> set (level_names d1)"
        then have "has_level (index d1) ''id''"
          by (rule level_names_has_level) simp_all
        then show False using h(1) by (simp add: d1)
      qed
      have n2: "''id_y'' \<notin> set (level_names d1)"
      proof
        assume "''id_y'' \<in> set (level_names d1)"
        then have "has_level (index d1) ''id_y''"
          by (rule level_names_has_level) simp_all
        then show False using h(2) by (simp add: d1)
      qed
      have "''id_y'' \<notin> set (columns d3)"
        by (rule merge_left_no_id_y [OF cg _ _ s(3)]) (simp_all add: c2 n1 n2)
      then show ?thesis
        using movie_genre_KeyError [OF h(1,2) cg s(1,2)] by simp
    qed
    then show ?thesis using movie_genre_raises [OF h(1,2) cg] by blast
  qed
  show ?thesis using a b c by blast
qed

section \<open>The flattened table\<close>

lemma explode_row_fst: "jr \<in> set (explode_row c ir) \<Longrightarrow> fst jr = fst ir"
  by (auto simp: explode_row_def)

lemma explode_row_other: "jr \<in> set (explode_row c ir) \<Longrightarrow> c' \<noteq> c \<Longrightarrow> snd jr c' = snd ir c'"
  by (auto simp: explode_row_def)

lemma explode_row_cell: "jr \<in> set (explode_row c ir) \<Longrightarrow> snd jr c \<in> set (explode_cell (snd ir c))"
  by (auto simp: explode_row_def)

lemma length_explode_row: "length (explode_row c ir) = length (explode_cell (snd ir c))"
  by (simp add: explode_row_def)

lemma flatten_eq_Inr:
  assumes "flatten df0 = Inr df"
  shows "''genre'' \<in> set (columns df0)" and "''cast'' \<in> set (columns df0)"
    and "''year'' \<in> set (columns df0)" and "''rating'' \<in> set (columns df0)"
    and "rows df =
      map (\<lambda>ir. (fst ir,
            (\<lambda>c. fill_cell (((snd ir)
                 (''main_genre'' := projr (first_if_list (snd ir ''genre'')),
                  ''decade'' := projr (decade_of (snd ir ''year'')))) c))
              (''year'' := projr (astype_int64 (fill_cell (snd ir ''year''))),
               ''rating'' := projr (astype_float64 (fill_cell (snd ir ''rating''))))))
        (exploded df0)"
    and "\<forall>ir\<in>set (exploded df0). \<not> isl (first_if_list (snd ir ''genre'')) \<and>
            \<not> isl (decade_of (snd ir ''year''))"
proof -
  from assms obtain df1 df2 df3 df4 df5 where
    e1: "explode df0 ''genre'' = Inr df1" and e2: "explode df1 ''cast'' = Inr df2" and
    a3: "assign df2 ''main_genre'' ''genre'' first_if_list = Inr df3" and
    a4: "assign df3 ''decade'' ''year'' decade_of = Inr df4" and
    a5: "assign (fillna0 df4) ''year'' ''year'' astype_int64 = Inr df5" and
    a6: "assign df5 ''rating'' ''rating'' astype_float64 = Inr df"
    unfolding flatten_def and_then_eq_Inr by blast
  have c1: "columns df1 = columns df0" and r1: "rows df1 = concat (map (explode_row ''genre'') (rows df0))"
    and g: "''genre'' \<in> set (columns df0)"
    using e1 by (auto simp: explode_eq_Inr)
  have c2: "columns df2 = columns df0" and r2: "rows df2 = exploded df0"
    and c: "''cast'' \<in> set (columns df0)"
    using e2 c1 r1 by (auto simp: explode_eq_Inr exploded_def)
  note A3 = a3 [unfolded assign_eq_Inr]
  have r3: "rows df3 = map (\<lambda>ir. (fst ir, (snd ir)(''main_genre'' := projr (first_if_list (snd ir ''genre''))))) (exploded df0)"
    and ok3: "\<forall>ir\<in>set (exploded df0). \<not> isl (first_if_list (snd ir ''genre''))"
    and c3: "set (columns df3) = insert ''main_genre'' (set (columns df0))"
    using A3 r2 c2 by auto
  note A4 = a4 [unfolded assign_eq_Inr]
  have y3: "''year'' \<in> set (columns df3)" using A4 by simp
  then have y: "''year'' \<in> set (columns df0)" using c3 by auto
  have r4: "rows df4 = map (\<lambda>ir. (fst ir, (snd ir)(''main_genre'' := projr (first_if_list (snd ir ''genre'')),
                 ''decade'' := projr (decade_of (snd ir ''year''))))) (exploded df0)"
    using A4 r3 by (simp add: o_def)
  have ok4: "\<forall>ir\<in>set (exploded df0). \<not> isl (decade_of (snd ir ''year''))"
    using A4 r3 by simp
  have c4: "set (columns df4) = insert ''decade'' (insert ''main_genre'' (set (columns df0)))"
    using A4 c3 by auto
  note A5 = a5 [unfolded assign_eq_Inr]
  have r5: "rows df5 = map (\<lambda>ir. (fst ir,
            (\<lambda>c. fill_cell (((snd ir)
                 (''main_genre'' := projr (first_if_list (snd ir ''genre'')),
                  ''decade'' := projr (decade_of (snd ir ''year'')))) c))
              (''year'' := projr (astype_int64 (fill_cell (snd ir ''year'')))))) (exploded df0)"
    using A5 r4 by (simp add: o_def fillna0_def)
  have c5: "set (columns df5) = set (columns df4)"
    using A5 by (auto simp: fillna0_def)
  note A6 = a6 [unfolded assign_eq_Inr]
  have "''rating'' \<in> set (columns df5)" using A6 by simp
  then have rt: "''rating'' \<in> set (columns df0)" using c5 c4 by auto
  have r6: "rows df =
      map (\<lambda>ir. (fst ir,
            (\<lambda>c. fill_cell (((snd ir)
                 (''main_genre'' := projr (first_if_list (snd ir ''genre'')),
                  ''decade'' := projr (decade_of (snd ir ''year'')))) c))
              (''year'' := projr (astype_int64 (fill_cell (snd ir ''year''))),
               ''rating'' := projr (astype_float64 (fill_cell (snd ir ''rating''))))))
        (exploded df0)"
    using A6 r5 by (simp add: o_def)
  show "''genre'' \<in> set (columns df0)" by (rule g)
  show "''cast'' \<in> set (columns df0)" by (rule c)
  show "''year'' \<in> set (columns df0)" by (rule y)
  show "''rating'' \<in> set (columns df0)" by (rule rt)
  show "rows df =
      map (\<lambda>ir. (fst ir,
            (\<lambda>c. fill_cell (((snd ir)
                 (''main_genre'' := projr (first_if_list (snd ir ''genre'')),
                  ''decade'' := projr (decade_of (snd ir ''year'')))) c))
              (''year'' := projr (astype_int64 (fill_cell (snd ir ''year''))),
               ''rating'' := projr (astype_float64 (fill_cell (snd ir ''rating''))))))
        (exploded df0)" by (rule r6)
  show "\<forall>ir\<in>set (exploded df0). \<not> isl (first_if_list (snd ir ''genre'')) \<and>
            \<not> isl (decade_of (snd ir ''year''))"
    using ok3 ok4 by blast
qed

lemma record_row_simps:
  "record_row b m ''year'' = year_cell b (year m)"
  "record_row b m ''rating'' = rating_cell (rating m)"
  "record_row b m ''genre'' = items_cell (genre m)"
  "record_row b m ''cast'' = items_cell (cast m)"
  "record_row b m ''title'' = str_cell (title m)"
  "record_row b m ''synopsis'' = str_cell (synopsis m)"
  "record_row b m ''director'' = str_cell (director m)"
  by (simp_all add: record_row_def)

lemma length_range_index [simp]: "length (range_index n) = n"
  by (simp add: range_index_def)

lemma nth_range_index [simp]: "k < n \<Longrightarrow> range_index n ! k = IntV (int k)"
  by (simp add: range_index_def)

lemma rows_json_normalize:
  "rows (json_normalize ms) =
     zip (range_index (length ms)) (map (record_row (list_all (\<lambda>m. year m \<noteq> None) ms)) ms)"
  by (simp add: json_normalize_def)

lemma in_rows_json_normalize:
  "ir \<in> set (rows (json_normalize ms)) \<Longrightarrow>
     \<exists>k<length ms. ir = (IntV (int k), record_row (list_all (\<lambda>m. year m \<noteq> None) ms) (ms ! k))"
  by (auto simp: rows_json_normalize in_set_zip)

lemma in_set_if_single: "(x \<in> set (if b then [] else [y])) = (\<not> b \<and> x = y)"
  by simp

lemma in_record_keys:
  "(''genre'' \<in> set (record_keys m)) = (genre m \<noteq> None)"
  "(''cast'' \<in> set (record_keys m)) = (cast m \<noteq> None)"
  "(''year'' \<in> set (record_keys m)) = (year m \<noteq> None)"
  "(''rating'' \<in> set (record_keys m)) = (rating m \<noteq> None)"
  "(''title'' \<in> set (record_keys m)) = (title m \<noteq> None)"
  "(''synopsis'' \<in> set (record_keys m)) = (synopsis m \<noteq> None)"
  "(''director'' \<in> set (record_keys m)) = (director m \<noteq> None)"
  by (simp_all add: record_keys_def in_set_if_single split del: if_split)

lemma columns_json_normalize_iff:
  "(c \<in> set (columns (json_normalize ms))) =
     (c \<in> set [''title'', ''year'', ''rating'', ''synopsis'', ''director'', ''genre'', ''cast''] \<and>
      list_ex (\<lambda>m. c \<in> set (record_keys m)) ms)"
  unfolding json_normalize_def by (simp only: frame.select_convs set_filter mem_Collect_eq)

lemma columns_json_normalize:
  "(''genre'' \<in> set (columns (json_normalize ms))) = list_ex (\<lambda>m. genre m \<noteq> None) ms"
  "(''cast'' \<in> set (columns (json_normalize ms))) = list_ex (\<lambda>m. cast m \<noteq> None) ms"
  "(''year'' \<in> set (columns (json_normalize ms))) = list_ex (\<lambda>m. year m \<noteq> None) ms"
  "(''rating'' \<in> set (columns (json_normalize ms))) = list_ex (\<lambda>m. rating m \<noteq> None) ms"
  "(''title'' \<in> set (columns (json_normalize ms))) = list_ex (\<lambda>m. title m \<noteq> None) ms"
  "(''synopsis'' \<in> set (columns (json_normalize ms))) = list_ex (\<lambda>m. synopsis m \<noteq> None) ms"
  "(''director'' \<in> set (columns (json_normalize ms))) = list_ex (\<lambda>m. director m \<noteq> None) ms"
  by (simp_all add: columns_json_normalize_iff in_record_keys)

lemma in_exploded:
  assumes "jr \<in> set (exploded df0)"
  shows "\<exists>ir\<in>set (rows df0). fst jr = fst ir \<and>
           (\<forall>c. c \<noteq> ''genre'' \<longrightarrow> c \<noteq> ''cast'' \<longrightarrow> snd jr c = snd ir c) \<and>
           snd jr ''genre'' \<in> set (explode_cell (snd ir ''genre'')) \<and>
           snd jr ''cast'' \<in> set (explode_cell (snd ir ''cast''))"
proof -
  from assms obtain ir mr where ir: "ir \<in> set (rows df0)"
    and mr: "mr \<in> set (explode_row ''genre'' ir)" and jr: "jr \<in> set (explode_row ''cast'' mr)"
    by (auto simp: exploded_def)
  have a: "fst jr = fst ir"
    using explode_row_fst [OF mr] explode_row_fst [OF jr] by simp
  have b: "\<forall>c. c \<noteq> ''genre'' \<longrightarrow> c \<noteq> ''cast'' \<longrightarrow> snd jr c = snd ir c"
    using explode_row_other [OF mr] explode_row_other [OF jr] by simp
  have "snd jr ''genre'' = snd mr ''genre''"
    using explode_row_other [OF jr, of "''genre''"] by simp
  then have c: "snd jr ''genre'' \<in> set (explode_cell (snd ir ''genre''))"
    using explode_row_cell [OF mr] by simp
  have "snd mr ''cast'' = snd ir ''cast''"
    using explode_row_other [OF mr, of "''cast''"] by simp
  then have d: "snd jr ''cast'' \<in> set (explode_cell (snd ir ''cast''))"
    using explode_row_cell [OF jr] by simp
  show ?thesis
    by (rule bexI [OF _ ir]) (intro conjI a b c d)
qed

lemma explode_items_cell_simps:
  "explode_cell (items_cell None) = [NaN]"
  "explode_cell (items_cell (Some (Scalar s))) = [StrV s]"
  "explode_cell (items_cell (Some (Items []))) = [NaN]"
  "explode_cell (items_cell (Some (Items (x # xs)))) = StrV x # map StrV xs"
  by (simp_all add: items_cell_def)

lemma explode_items_cell: "c \<in> set (explode_cell (items_cell v)) \<Longrightarrow> \<not> is_list c"
proof (induction v)
  case None
  then show ?case by (simp add: explode_items_cell_simps)
next
  case (Some it)
  then show ?case
  proof (induction it)
    case (Scalar s)
    then show ?case by (simp add: explode_items_cell_simps)
  next
    case (Items xs)
    then show ?case
    proof (induction xs)
      case Nil
      then show ?case by (simp add: explode_items_cell_simps)
    next
      case (Cons x xs)
      from Cons.prems have "c = StrV x \<or> c \<in> StrV ` set xs"
        by (simp add: explode_items_cell_simps)
      then show ?case by (elim disjE imageE) simp_all
    qed
  qed
qed

lemma in_exploded_json:
  assumes "jr \<in> set (exploded (json_normalize ms))"
  shows "\<exists>k<length ms. fst jr = IntV (int k) \<and>
           snd jr ''year'' = year_cell (list_all (\<lambda>m. year m \<noteq> None) ms) (year (ms ! k)) \<and>
           snd jr ''rating'' = rating_cell (rating (ms ! k)) \<and>
           \<not> is_list (snd jr ''genre'')"
proof -
  from in_exploded [OF assms] obtain ir where ir: "ir \<in> set (rows (json_normalize ms))"
    and f: "fst jr = fst ir"
    and o: "\<And>c. c \<noteq> ''genre'' \<Longrightarrow> c \<noteq> ''cast'' \<Longrightarrow> snd jr c = snd ir c"
    and g: "snd jr ''genre'' \<in> set (explode_cell (snd ir ''genre''))"
    by blast
  from in_rows_json_normalize [OF ir] obtain k where k: "k < length ms"
    and eq: "ir = (IntV (int k), record_row (list_all (\<lambda>m. year m \<noteq> None) ms) (ms ! k))"
    by blast
  have a: "\<not> is_list (snd jr ''genre'')"
    using g unfolding eq snd_conv record_row_simps by (rule explode_items_cell)
  have b: "snd jr ''year'' = year_cell (list_all (\<lambda>m. year m \<noteq> None) ms) (year (ms ! k))"
    using o [of "''year''"] by (simp add: eq record_row_simps)
  have c: "snd jr ''rating'' = rating_cell (rating (ms ! k))"
    using o [of "''rating''"] by (simp add: eq record_row_simps)
  have d: "fst jr = IntV (int k)" using f eq by simp
  show ?thesis
    using k a b c d by blast
qed

lemma first_if_list_not_list: "\<not> is_list v \<Longrightarrow> first_if_list v = Inr v"
  by (cases v) simp_all

lemma decade_of_year_cell: "\<not> isl (decade_of (year_cell b v))"
  by (simp add: year_cell_def split: option.splits)

lemma astype_int64_year_cell: "\<not> isl (astype_int64 (fill_cell (year_cell b v)))"
  by (simp add: year_cell_def fill_cell_def split: option.splits)

lemma astype_float64_rating_cell: "\<not> isl (astype_float64 (fill_cell (rating_cell v)))"
  by (simp add: rating_cell_def fill_cell_def split: option.splits)

lemma assign_returns:
  "src \<in> set (columns df) \<Longrightarrow> (\<And>ir. ir \<in> set (rows df) \<Longrightarrow> \<not> isl (f (snd ir src))) \<Longrightarrow>
     \<exists>df'. assign df new src f = Inr df'"
  by (simp add: assign_eq_Inr)

lemma flatten_returns:
  assumes g: "''genre'' \<in> set (columns df0)" and c: "''cast'' \<in> set (columns df0)"
    and y: "''year'' \<in> set (columns df0)" and r: "''rating'' \<in> set (columns df0)"
    and ok: "\<And>jr. jr \<in> set (exploded df0) \<Longrightarrow>
      \<not> isl (first_if_list (snd jr ''genre'')) \<and> \<not> isl (decade_of (snd jr ''year'')) \<and>
      \<not> isl (astype_int64 (fill_cell (snd jr ''year''))) \<and>
      \<not> isl (astype_float64 (fill_cell (snd jr ''rating'')))"
  shows "\<exists>df. flatten df0 = Inr df"
proof -
  define df1 where "df1 = df0\<lparr>rows := concat (map (explode_row ''genre'') (rows df0))\<rparr>"
  define df2 where "df2 = df1\<lparr>rows := concat (map (explode_row ''cast'') (rows df1))\<rparr>"
  have e1: "explode df0 ''genre'' = Inr df1"
    using g by (simp add: explode_def df1_def)
  have e2: "explode df1 ''cast'' = Inr df2"
    using c by (simp add: explode_def df1_def df2_def)
  have c2: "columns df2 = columns df0" and r2: "rows df2 = exploded df0"
    by (simp_all add: df1_def df2_def exploded_def)
  have "\<exists>df3. assign df2 ''main_genre'' ''genre'' first_if_list = Inr df3"
    by (rule assign_returns) (use g ok in \<open>simp_all add: c2 r2\<close>)
  then obtain df3 where a3: "assign df2 ''main_genre'' ''genre'' first_if_list = Inr df3" ..
  note A3 = a3 [unfolded assign_eq_Inr]
  have c3: "set (columns df3) = insert ''main_genre'' (set (columns df0))"
    and r3: "rows df3 = map (\<lambda>ir. (fst ir, (snd ir)(''main_genre'' := projr (first_if_list (snd ir ''genre''))))) (exploded df0)"
    using A3 c2 r2 by auto
  have "\<exists>df4. assign df3 ''decade'' ''year'' decade_of = Inr df4"
  proof (rule assign_returns)
    show "''year'' \<in> set (columns df3)" using y c3 by simp
    fix ir assume "ir \<in> set (rows df3)"
    then obtain jr where "jr \<in> set (exploded df0)" and "snd ir ''year'' = snd jr ''year''"
      by (auto simp: r3)
    then show "\<not> isl (decade_of (snd ir ''year''))" using ok by simp
  qed
  then obtain df4 where a4: "assign df3 ''decade'' ''year'' decade_of = Inr df4" ..
  note A4 = a4 [unfolded assign_eq_Inr]
  have c4: "set (columns df4) = insert ''decade'' (insert ''main_genre'' (set (columns df0)))"
    and r4: "rows df4 = map (\<lambda>ir. (fst ir, (snd ir)(''main_genre'' := projr (first_if_list (snd ir ''genre'')),
                 ''decade'' := projr (decade_of (snd ir ''year''))))) (exploded df0)"
    using A4 c3 r3 by (auto simp: o_def)
  have "\<exists>df5. assign (fillna0 df4) ''year'' ''year'' astype_int64 = Inr df5"
  proof (rule assign_returns)
    show "''year'' \<in> set (columns (fillna0 df4))" using y c4 by (simp add: fillna0_def)
    fix ir assume "ir \<in> set (rows (fillna0 df4))"
    then obtain jr where "jr \<in> set (exploded df0)" and "snd ir ''year'' = fill_cell (snd jr ''year'')"
      by (auto simp: r4 fillna0_def)
    then show "\<not> isl (astype_int64 (snd ir ''year''))" using ok by simp
  qed
  then obtain df5 where a5: "assign (fillna0 df4) ''year'' ''year'' astype_int64 = Inr df5" ..
  note A5 = a5 [unfolded assign_eq_Inr]
  have c5: "set (columns df5) = set (columns df4)"
    using A5 by (auto simp: fillna0_def)
  have r5: "rows df5 = map (\<lambda>ir. (fst ir,
            (\<lambda>c. fill_cell (((snd ir)
                 (''main_genre'' := projr (first_if_list (snd ir ''genre'')),
                  ''decade'' := projr (decade_of (snd ir ''year'')))) c))
              (''year'' := projr (astype_int64 (fill_cell (snd ir ''year'')))))) (exploded df0)"
    using A5 r4 by (simp add: o_def fillna0_def)
  have "\<exists>df. assign df5 ''rating'' ''rating'' astype_float64 = Inr df"
  proof (rule assign_returns)
    show "''rating'' \<in> set (columns df5)" using r c5 c4 by simp
    fix ir assume "ir \<in> set (rows df5)"
    then obtain jr where "jr \<in> set (exploded df0)" and "snd ir ''rating'' = fill_cell (snd jr ''rating'')"
      by (auto simp: r5)
    then show "\<not> isl (astype_float64 (snd ir ''rating''))" using ok by simp
  qed
  then obtain df where a6: "assign df5 ''rating'' ''rating'' astype_float64 = Inr df" ..
  show ?thesis
    using e1 e2 a3 a4 a5 a6 by (simp add: flatten_def)
qed

lemma flatten_json_normalize_returns:
  assumes "list_ex (\<lambda>m. genre m \<noteq> None) ms" and "list_ex (\<lambda>m. cast m \<noteq> None) ms"
    and "list_ex (\<lambda>m. year m \<noteq> None) ms" and "list_ex (\<lambda>m. rating m \<noteq> None) ms"
  shows "\<exists>df. flatten (json_normalize ms) = Inr df"
proof (rule flatten_returns)
  fix jr
  assume "jr \<in> set (exploded (json_normalize ms))"
  from in_exploded_json [OF this]
  show "\<not> isl (first_if_list (snd jr ''genre'')) \<and> \<not> isl (decade_of (snd jr ''year'')) \<and>
      \<not> isl (astype_int64 (fill_cell (snd jr ''year''))) \<and>
      \<not> isl (astype_float64 (fill_cell (snd jr ''rating'')))"
    by (auto simp: first_if_list_not_list decade_of_year_cell astype_int64_year_cell
        astype_float64_rating_cell)
qed (use assms in \<open>simp_all add: columns_json_normalize\<close>)

lemma exploded_count_eq: "exploded_count v = length (explode_cell (items_cell v))"
proof (cases v)
  case None
  then show ?thesis by (simp add: exploded_count_def explode_items_cell_simps)
next
  case (Some it)
  show ?thesis
  proof (cases it)
    case (Scalar s)
    then show ?thesis using Some by (simp add: exploded_count_def explode_items_cell_simps)
  next
    case (Items xs)
    then show ?thesis using Some
      by (cases xs) (simp_all add: exploded_count_def explode_items_cell_simps)
  qed
qed

lemma explode_one_row:
  "map (\<lambda>jr. (fst jr, snd jr ''genre'', snd jr ''cast''))
       (concat (map (explode_row ''cast'') (map (\<lambda>v. (i, r(''genre'' := v))) vs))) =
   map (\<lambda>gc. (i, gc)) (List.product vs (explode_cell (r ''cast'')))"
  by (induction vs) (simp_all add: explode_row_def o_def)

lemma exploded_cells:
  "map (\<lambda>jr. (fst jr, snd jr ''genre'', snd jr ''cast'')) (exploded df0) =
   concat (map (\<lambda>ir. map (\<lambda>gc. (fst ir, gc))
       (List.product (explode_cell (snd ir ''genre'')) (explode_cell (snd ir ''cast'')))) (rows df0))"
proof -
  have "map (\<lambda>jr. (fst jr, snd jr ''genre'', snd jr ''cast''))
          (concat (map (explode_row ''cast'') (concat (map (explode_row ''genre'') rs)))) =
        concat (map (\<lambda>ir. map (\<lambda>gc. (fst ir, gc))
          (List.product (explode_cell (snd ir ''genre'')) (explode_cell (snd ir ''cast'')))) rs)" for rs
  proof (induction rs)
    case Nil
    show ?case by simp
  next
    case (Cons ir rs)
    have "map (\<lambda>jr. (fst jr, snd jr ''genre'', snd jr ''cast''))
            (concat (map (explode_row ''cast'') (explode_row ''genre'' ir))) =
          map (\<lambda>gc. (fst ir, gc))
            (List.product (explode_cell (snd ir ''genre'')) (explode_cell (snd ir ''cast'')))"
      unfolding explode_row_def [of "''genre''"] by (rule explode_one_row)
    then show ?case using Cons.IH by simp
  qed
  then show ?thesis by (simp add: exploded_def)
qed

lemma length_exploded:
  "length (exploded df0) =
     (\<Sum>ir\<leftarrow>rows df0. length (explode_cell (snd ir ''genre'')) * length (explode_cell (snd ir ''cast'')))"
proof -
  have "length (exploded df0) = length (map (\<lambda>jr. (fst jr, snd jr ''genre'', snd jr ''cast'')) (exploded df0))"
    by simp
  also have "\<dots> = (\<Sum>ir\<leftarrow>rows df0. length (explode_cell (snd ir ''genre'')) * length (explode_cell (snd ir ''cast'')))"
    unfolding exploded_cells by (simp add: length_concat o_def)
  finally show ?thesis .
qed

lemma sum_rows_json_normalize:
  "(\<Sum>ir\<leftarrow>rows (json_normalize ms). f (snd ir)) =
     (\<Sum>m\<leftarrow>ms. f (record_row (list_all (\<lambda>m. year m \<noteq> None) ms) m))"
proof -
  have "map (\<lambda>ir. f (snd ir)) (zip (range_index (length ms)) (map g ms)) = map (\<lambda>m. f (g m)) ms" for g
    by (rule nth_equalityI) simp_all
  then show ?thesis by (simp add: rows_json_normalize)
qed

lemma length_exploded_json:
  "length (exploded (json_normalize ms)) =
     (\<Sum>m\<leftarrow>ms. exploded_count (genre m) * exploded_count (cast m))"
  unfolding length_exploded
  using sum_rows_json_normalize
    [of "\<lambda>r. length (explode_cell (r ''genre'')) * length (explode_cell (r ''cast''))" ms]
  by (simp add: record_row_simps exploded_count_eq)

lemma load_and_preprocess_data_eq:
  assumes "read_json ev p = Inr jd" and "top_movies jd = Inr ms"
  shows "load_and_preprocess_data ev p w =
    (case preprocess ms of
       Inl e \<Rightarrow> (Inl e, print (Erro ''Erro ao carregar dados'' e) (enter Load w))
     | Inr df \<Rightarrow> (Inr (reset_index_drop df), enter Load w))"
  using assms
  by (simp add: load_and_preprocess_data_def except_print_raise_def split: sum.splits)

lemma rows_reset_index_drop: "map snd (rows (reset_index_drop df)) = map snd (rows df)"
  by (simp add: reset_index_drop_def)

lemma load_returns_preprocess:
  assumes "read_json ev p = Inr jd" and "top_movies jd = Inr ms"
    and "fst (load_and_preprocess_data ev p w) = Inr out"
  shows "\<exists>df. preprocess ms = Inr df \<and> out = reset_index_drop df"
  using assms(3) unfolding load_and_preprocess_data_eq [OF assms(1,2)]
  by (cases "preprocess ms") simp_all

lemma preprocess_row:
  assumes "preprocess ms = Inr df" and "ir \<in> set (rows df)"
  shows "\<exists>k<length ms. fst ir = IntV (int k) \<and>
     snd ir ''year'' =
       projr (astype_int64 (fill_cell (year_cell (list_all (\<lambda>m. year m \<noteq> None) ms) (year (ms ! k))))) \<and>
     snd ir ''decade'' =
       fill_cell (projr (decade_of (year_cell (list_all (\<lambda>m. year m \<noteq> None) ms) (year (ms ! k))))) \<and>
     snd ir ''main_genre'' = snd ir ''genre''"
proof -
  have fl: "flatten (json_normalize ms) = Inr df"
    using assms(1) by (simp add: preprocess_def)
  from assms(2) obtain jr where jr: "jr \<in> set (exploded (json_normalize ms))"
    and f: "fst ir = fst jr"
    and s: "snd ir = (\<lambda>c. fill_cell (((snd jr)
                 (''main_genre'' := projr (first_if_list (snd jr ''genre'')),
                  ''decade'' := projr (decade_of (snd jr ''year'')))) c))
              (''year'' := projr (astype_int64 (fill_cell (snd jr ''year''))),
               ''rating'' := projr (astype_float64 (fill_cell (snd jr ''rating''))))"
    unfolding flatten_eq_Inr(5) [OF fl] by auto
  from in_exploded_json [OF jr] obtain k where k: "k < length ms"
    and i: "fst jr = IntV (int k)"
    and y: "snd jr ''year'' = year_cell (list_all (\<lambda>m. year m \<noteq> None) ms) (year (ms ! k))"
    and g: "\<not> is_list (snd jr ''genre'')"
    by blast
  have a: "snd ir ''year'' = projr (astype_int64 (fill_cell (snd jr ''year'')))"
    by (simp add: s)
  have b: "snd ir ''decade'' = fill_cell (projr (decade_of (snd jr ''year'')))"
    by (simp add: s)
  have c: "snd ir ''main_genre'' = fill_cell (snd jr ''genre'')"
    by (simp add: s first_if_list_not_list [OF g])
  have d: "snd ir ''genre'' = fill_cell (snd jr ''genre'')"
    by (simp add: s)
  show ?thesis
    using k f i a b c d unfolding y by auto
qed

lemma wrap64_id: "- (2 ^ 63) \<le> i \<Longrightarrow> i < 2 ^ 63 \<Longrightarrow> wrap64 i = i"
  by (simp add: wrap64_def)

lemma decade_no_wrap:
  assumes "- 9223372036854775800 \<le> y" and "y < 2 ^ 63"
  shows "wrap64 (y div 10 * 10) = y div 10 * 10"
proof (rule wrap64_id)
  show "- (2 ^ 63) \<le> y div 10 * 10" using assms(1) by simp
  show "y div 10 * 10 < 2 ^ 63" using assms(2) by simp
qed

lemma product_map:
  "map (\<lambda>ab. (f (fst ab), g (snd ab))) (List.product xs ys) = List.product (map f xs) (map g ys)"
  by (induction xs) (simp_all add: o_def)

lemma map_rows_json_normalize:
  "map (\<lambda>ir. f (snd ir)) (rows (json_normalize ms)) =
     map (\<lambda>m. f (record_row (list_all (\<lambda>m. year m \<noteq> None) ms) m)) ms"
  unfolding rows_json_normalize by (rule nth_equalityI) simp_all

lemma preprocess_cells:
  assumes "preprocess ms = Inr df"
  shows "map (\<lambda>ir. (snd ir ''genre'', snd ir ''cast'')) (rows df) =
     concat (map (\<lambda>m.
        List.product (map fill_cell (explode_cell (items_cell (genre m))))
          (map fill_cell (explode_cell (items_cell (cast m))))) ms)"
proof -
  let ?df0 = "json_normalize ms"
  let ?h = "\<lambda>t. (fill_cell (fst (snd t)), fill_cell (snd (snd t)))"
  let ?P = "\<lambda>r. List.product (explode_cell (r ''genre'')) (explode_cell (r ''cast''))"
  have fl: "flatten ?df0 = Inr df"
    using assms by (simp add: preprocess_def)
  have "map (\<lambda>ir. (snd ir ''genre'', snd ir ''cast'')) (rows df) =
        map ?h (map (\<lambda>jr. (fst jr, snd jr ''genre'', snd jr ''cast'')) (exploded ?df0))"
    unfolding flatten_eq_Inr(5) [OF fl] by (simp add: o_def)
  also have "\<dots> = concat (map (\<lambda>ir. map (\<lambda>ab. (fill_cell (fst ab), fill_cell (snd ab))) (?P (snd ir))) (rows ?df0))"
    unfolding exploded_cells by (simp add: map_concat o_def)
  also have "\<dots> = concat (map (\<lambda>ir. List.product (map fill_cell (explode_cell (snd ir ''genre'')))
        (map fill_cell (explode_cell (snd ir ''cast'')))) (rows ?df0))"
    by (simp only: product_map)
  also have "\<dots> = concat (map (\<lambda>m.
        List.product (map fill_cell (explode_cell (items_cell (genre m))))
          (map fill_cell (explode_cell (items_cell (cast m))))) ms)"
    using map_rows_json_normalize
      [of "\<lambda>r. List.product (map fill_cell (explode_cell (r ''genre'')))
        (map fill_cell (explode_cell (r ''cast'')))" ms]
    by (simp add: record_row_simps)
  finally show ?thesis .
qed

lemma length_preprocess:
  assumes "preprocess ms = Inr df"
  shows "length (rows df) = (\<Sum>m\<leftarrow>ms. exploded_count (genre m) * exploded_count (cast m))"
proof -
  have fl: "flatten (json_normalize ms) = Inr df"
    using assms by (simp add: preprocess_def)
  show ?thesis
    unfolding flatten_eq_Inr(5) [OF fl] by (simp add: length_exploded_json)
qed

text \<open>
  Claim C3, as amended. When the document is read and some record has each of the keys
  \<open>genre\<close>, \<open>cast\<close>, \<open>year\<close> and \<open>rating\<close>, the loader returns, and the number of rows
  of the flattened table is the sum over the records of the product of the two exploded
  counts: the length of a non-empty list, and one for an empty list, a scalar or a
  missing field. The pairs of \<open>genre\<close> and \<open>cast\<close> cells of the rows are, record after
  record, the full cross product of the cells the two fields explode into (a missing
  cell filled with 0), the genre varying slowest.
\<close>

theorem flattened_rows_are_cross_products:
  assumes "read_json ev p = Inr jd" and "top_movies jd = Inr ms"
    and "list_ex (\<lambda>m. genre m \<noteq> None) ms" and "list_ex (\<lambda>m. cast m \<noteq> None) ms"
    and "list_ex (\<lambda>m. year m \<noteq> None) ms" and "list_ex (\<lambda>m. rating m \<noteq> None) ms"
  shows "\<exists>out. fst (load_and_preprocess_data ev p w) = Inr out \<and>
    length (rows out) = (\<Sum>m\<leftarrow>ms. exploded_count (genre m) * exploded_count (cast m)) \<and>
    map (\<lambda>ir. (snd ir ''genre'', snd ir ''cast'')) (rows out) =
      concat (map (\<lambda>m.
        List.product (map fill_cell (explode_cell (items_cell (genre m))))
          (map fill_cell (explode_cell (items_cell (cast m))))) ms)"
proof -
  obtain df where df: "preprocess ms = Inr df"
    using flatten_json_normalize_returns [OF assms(3-6)] by (auto simp: preprocess_def)
  have l: "fst (load_and_preprocess_data ev p w) = Inr (reset_index_drop df)"
    unfolding load_and_preprocess_data_eq [OF assms(1,2)] by (simp add: df)
  have n: "length (rows (reset_index_drop df)) = length (rows df)"
    by (simp add: reset_index_drop_def)
  have m: "map (\<lambda>ir. (snd ir ''genre'', snd ir ''cast'')) (rows (reset_index_drop df)) =
           map (\<lambda>ir. (snd ir ''genre'', snd ir ''cast'')) (rows df)"
    unfolding reset_index_drop_def by (rule nth_equalityI) simp_all
  show ?thesis
    using l n m length_preprocess [OF df] preprocess_cells [OF df] by simp
qed





text \<open>
  Claim C9, as amended. When every record has a year, each row of a record with year
  \<open>y\<close> (from -9223372036854775800 up, where the 64-bit product does not wrap) keeps
  \<open>year = y\<close> and has as \<open>decade\<close> the decimal digits of \<open>y div 10 * 10\<close> followed by
  \<open>s\<close>.
\<close>

theorem decade_of_int64_year_column:
  assumes "read_json ev p = Inr jd" and "top_movies jd = Inr ms"
    and "fst (load_and_preprocess_data ev p w) = Inr out"
    and "list_all (\<lambda>m. year m \<noteq> None) ms"
  shows "\<exists>df. preprocess ms = Inr df \<and> map snd (rows out) = map snd (rows df) \<and>
    (\<forall>k r y. k < length ms \<and> year (ms ! k) = Some y \<and> - 9223372036854775800 \<le> y \<and> y < 2 ^ 63 \<and>
         (IntV (int k), r) \<in> set (rows df) \<longrightarrow>
       r ''year'' = IntV y \<and> r ''decade'' = StrV (str_int (y div 10 * 10) @ ''s''))"
proof -
  from load_returns_preprocess [OF assms(1-3)] obtain df where
    df: "preprocess ms = Inr df" and out: "out = reset_index_drop df" by blast
  have "r ''year'' = IntV y \<and> r ''decade'' = StrV (str_int (y div 10 * 10) @ ''s'')"
    if "k < length ms" "year (ms ! k) = Some y" "- 9223372036854775800 \<le> y" "y < 2 ^ 63"
      "(IntV (int k), r) \<in> set (rows df)" for k r y
  proof -
    from preprocess_row [OF df that(5)] obtain k' where "k' < length ms"
      and "IntV (int k) = IntV (int k')"
      and y: "r ''year'' =
       projr (astype_int64 (fill_cell (year_cell (list_all (\<lambda>m. year m \<noteq> None) ms) (year (ms ! k')))))"
      and d: "r ''decade'' =
       fill_cell (projr (decade_of (year_cell (list_all (\<lambda>m. year m \<noteq> None) ms) (year (ms ! k')))))"
      by auto
    then have "k' = k" by simp
    then show ?thesis
      using y d that(2) assms(4) decade_no_wrap [OF that(3,4)]
      by (simp add: year_cell_def fill_cell_def)
  qed
  then show ?thesis using df out rows_reset_index_drop [of df] by blast
qed

lemma main_genre_is_row_genre:
  assumes "preprocess ms = Inr df" and "ir \<in> set (rows df)"
  shows "snd ir ''main_genre'' = snd ir ''genre''"
  using preprocess_row [OF assms] by blast

section \<open>The orchestrator\<close>

lemma except_print_raise_eq:
  "except_print_raise msg res w = (res, case res of Inl e \<Rightarrow> print (Erro msg e) w | Inr x \<Rightarrow> w)"
  by (simp add: except_print_raise_def split: sum.splits)

lemma world_simps [simp]:
  "calls (enter s w) = calls w @ [s]" "stdout (enter s w) = stdout w"
  "schema (enter s w) = schema w" "database (enter s w) = database w"
  "calls (print l w) = calls w" "stdout (print l w) = stdout w @ [l]"
  "schema (print l w) = schema w" "database (print l w) = database w"
  by (simp_all add: enter_def print_def)

lemma load_world:
  "load_and_preprocess_data ev p w = (Inr df, w1) \<Longrightarrow> w1 = enter Load w"
  by (auto simp: load_and_preprocess_data_def except_print_raise_eq)

lemma create_visualizations_world:
  "fst (create_visualizations ev df w) = Inl e \<Longrightarrow>
     create_visualizations ev df w =
       (Inl e, print (Erro (''Erro ao criar visualiza'' @ [CHR 0xC3, CHR 0xA7, CHR 0xC3, CHR 0xB5] @ ''es'') e)
                 (enter Visualize w))"
  by (simp add: create_visualizations_def except_print_raise_eq)

text \<open>
  Claim C8. When the loader returns and \<open>create_visualizations\<close> raises on its frame,
  \<open>main\<close> ends having entered the loader and the visualizer only:
  \<open>prepare_database_tables\<close>, \<open>setup_database_engine\<close> and \<open>export_to_database\<close> are
  not called, and the schema and the rows of the database are what they were.
\<close>

theorem visualization_failure_stops_the_run:
  assumes "load_and_preprocess_data ev ''dataset/movies.json'' w = (Inr df, w1)"
    and "fst (create_visualizations ev df w1) = Inl e"
  shows "fst (main ev w) = Inr () \<and> calls (snd (main ev w)) = calls w @ [Load, Visualize] \<and>
    schema (snd (main ev w)) = schema w \<and> database (snd (main ev w)) = database w"
proof -
  have w1: "w1 = enter Load w" using assms(1) by (rule load_world)
  note v = create_visualizations_world [OF assms(2)]
  have "pipeline ev w =
    (Inl e, print (Erro (''Erro ao criar visualiza'' @ [CHR 0xC3, CHR 0xA7, CHR 0xC3, CHR 0xB5] @ ''es'') e)
                 (enter Visualize w1))"
    by (simp add: pipeline_def assms(1) v)
  then show ?thesis by (simp add: main_def w1)
qed

lemma load_index:
  "load_and_preprocess_data ev p w = (Inr df, w1) \<Longrightarrow> index df = Index None"
  by (auto simp: load_and_preprocess_data_def except_print_raise_eq and_then_def
      reset_index_drop_def split: sum.splits)







text \<open>
  Claim C7, as amended. When \<open>pd.read_json\<close> raises (the file is missing or is not
  JSON), the loader prints its message and raises that same exception; when the document
  has no \<open>top_movies\<close>, it raises \<open>KeyError\<close>. No exception of the program is a
  \<open>LoadError\<close>.
\<close>

theorem load_reraises_the_original_exception:
  "(\<forall>e. read_json ev p = Inl e \<longrightarrow>
      load_and_preprocess_data ev p w =
        (Inl e, print (Erro ''Erro ao carregar dados'' e) (enter Load w))) \<and>
   (\<forall>jd. read_json ev p = Inr jd \<and> map_of jd ''top_movies'' = None \<longrightarrow>
      load_and_preprocess_data ev p w =
        (Inl (KeyError [''top_movies'']),
         print (Erro ''Erro ao carregar dados'' (KeyError [''top_movies''])) (enter Load w))) \<and>
   (\<forall>e. exception_class e \<noteq> ''LoadError'')"
proof -
  have "exception_class e \<noteq> ''LoadError''" for e
    by (cases e) simp_all
  then show ?thesis
    by (simp add: load_and_preprocess_data_def except_print_raise_eq top_movies_def)
qed


text \<open>
  Claim C7 as stated fails: a missing file gives the library's \<open>FileNotFoundError\<close>, a
  document without \<open>top_movies\<close> a \<open>KeyError\<close>.
\<close>

theorem no_LoadError_counterexample:
  "fst (load_and_preprocess_data (library (Inl FileNotFoundError) None) ''dataset/movies.json'' world0) =
     Inl FileNotFoundError \<and>
   exception_class FileNotFoundError = ''FileNotFoundError'' \<and>
   fst (load_and_preprocess_data (library (Inr [(''movies'', [scenario])]) None) ''dataset/movies.json''
          world0) = Inl (KeyError [''top_movies'']) \<and>
   exception_class (KeyError [''top_movies'']) = ''KeyError'' \<and>
   ''FileNotFoundError'' \<noteq> ''LoadError'' \<and> ''KeyError'' \<noteq> ''LoadError''"
  by (simp add: load_and_preprocess_data_def except_print_raise_eq library_def top_movies_def)

theorem load_reraises_the_original_exception_witness:
  "read_json (library (Inl FileNotFoundError) None) ''dataset/movies.json'' = Inl FileNotFoundError \<and>
   load_and_preprocess_data (library (Inl FileNotFoundError) None) ''dataset/movies.json'' world0 =
     (Inl FileNotFoundError, print (Erro ''Erro ao carregar dados'' FileNotFoundError) (enter Load world0)) \<and>
   read_json (library (Inr [(''movies'', [scenario])]) None) ''dataset/movies.json'' =
     Inr [(''movies'', [scenario])] \<and>
   map_of [(''movies'', [scenario])] ''top_movies'' = None \<and>
   load_and_preprocess_data (library (Inr [(''movies'', [scenario])]) None) ''dataset/movies.json'' world0 =
     (Inl (KeyError [''top_movies'']),
      print (Erro ''Erro ao carregar dados'' (KeyError [''top_movies''])) (enter Load world0))"
proof -
  have a: "read_json (library (Inl FileNotFoundError) None) ''dataset/movies.json'' = Inl FileNotFoundError"
    by (simp add: library_def)
  have b: "read_json (library (Inr [(''movies'', [scenario])]) None) ''dataset/movies.json'' =
     Inr [(''movies'', [scenario])]"
    by (simp add: library_def)
  have c: "map_of [(''movies'', [scenario])] ''top_movies'' = None"
    by simp
  show ?thesis
    using a b c
      load_reraises_the_original_exception
        [of "library (Inl FileNotFoundError) None" "''dataset/movies.json''" world0]
      load_reraises_the_original_exception
        [of "library (Inr [(''movies'', [scenario])]) None" "''dataset/movies.json''" world0]
    by blast
qed

section \<open>The code on concrete documents\<close>

lemma read_json_document:
  "read_json (document ms) p = Inr [(''top_movies'', ms)]"
  "top_movies [(''top_movies'', ms)] = Inr ms"
  by (simp_all add: document_def library_def top_movies_def)

lemma labelled_row: "map fst xs = ls \<Longrightarrow> j < length ls \<Longrightarrow> (ls ! j, snd (xs ! j)) \<in> set xs"
proof -
  assume a: "map fst xs = ls" and b: "j < length ls"
  then have "j < length xs" by auto
  then have "xs ! j \<in> set xs" and "fst (xs ! j) = ls ! j" using a by auto
  then show ?thesis by (metis prod.collapse)
qed

text \<open>
  Claim C1, the code at the scenario: the flattened table has 4 rows, all of decade
  \<open>1990s\<close>; \<open>main_genre\<close> is \<open>Drama\<close> on two rows and \<open>Crime\<close> on the other two; and
  \<open>prepare_database_tables\<close> raises \<open>KeyError\<close> on \<open>director\<close> instead of returning
  tables.
\<close>

theorem scenario_flattens_but_tables_raise:
  "(case load_and_preprocess_data (document [scenario]) ''dataset/movies.json'' world0 of
      (Inl e, w) \<Rightarrow> False
    | (Inr df, w) \<Rightarrow>
        length (rows df) = 4 \<and>
        map (\<lambda>ir. snd ir ''decade'') (rows df) =
          [StrV ''1990s'', StrV ''1990s'', StrV ''1990s'', StrV ''1990s''] \<and>
        map (\<lambda>ir. snd ir ''main_genre'') (rows df) =
          [StrV ''Drama'', StrV ''Drama'', StrV ''Crime'', StrV ''Crime''] \<and>
        (case fst (prepare_database_tables df w) of
           Inl e \<Rightarrow> e = KeyError [''director'']
         | Inr t \<Rightarrow> False))"
  by code_simp

text \<open>
  Claim C4, the code on a record with genres \<open>Drama\<close> and \<open>Crime\<close>: the second row has
  \<open>main_genre = Crime\<close>, the genre of the row, not the first genre of the record.
  In general \<open>main_genre\<close> is the \<open>genre\<close> of its own row
  (\<open>main_genre_is_row_genre\<close>): line 14 runs after the explosion of line 13.
\<close>

theorem main_genre_follows_the_exploded_genre:
  "(case preprocess [scenario\<lparr>cast := Some (Items [''X''])\<rparr>] of
      Inl e \<Rightarrow> False
    | Inr df \<Rightarrow>
        map (\<lambda>ir. (fst ir, snd ir ''genre'', snd ir ''main_genre'')) (rows df) =
          [(IntV 0, StrV ''Drama'', StrV ''Drama''), (IntV 0, StrV ''Crime'', StrV ''Crime'')])"
  by code_simp

text \<open>
  Claim C3 as stated fails: a record with an empty genre list and one cast member
  gives one row, where the stated count is \<open>0 * 1\<close>.
\<close>

theorem empty_list_explodes_to_one_row_counterexample:
  "(case fst (load_and_preprocess_data
               (document [scenario\<lparr>genre := Some (Items []), cast := Some (Items [''X''])\<rparr>])
               ''dataset/movies.json'' world0) of
      Inl e \<Rightarrow> False
    | Inr out \<Rightarrow> length (rows out) = 1) \<and>
   stated_row_count [scenario\<lparr>genre := Some (Items []), cast := Some (Items [''X''])\<rparr>] = 0"
  by code_simp

text \<open>
  Claim C9 as stated fails: next to a record without year, the year 1994 is a float
  when the decade is computed, and its decade is \<open>1990.0s\<close>.
\<close>

theorem float_year_column_counterexample:
  "(case fst (load_and_preprocess_data (document [solo (Some 1994), solo None])
               ''dataset/movies.json'' world0) of
      Inl e \<Rightarrow> False
    | Inr out \<Rightarrow>
        map (\<lambda>ir. (snd ir ''year'', snd ir ''decade'')) (rows out) =
          [(IntV 1994, StrV ''1990.0s''), (IntV 0, StrV ''nans'')]) \<and>
   str_int (1994 div 10 * 10) @ ''s'' = ''1990s''"
  by code_simp

text \<open>
  Claim C2 as stated fails: on a frame whose index has levels named \<open>index\<close>,
  \<open>director\<close> and \<open>id\<close>, \<open>reset_index\<close> gives the projection the columns the merges
  and the selections ask for, and \<open>prepare_database_tables\<close> returns five tables.
\<close>

theorem named_index_frame_counterexample:
  "(case fst (prepare_database_tables named_index_frame world0) of
      Inl e \<Rightarrow> False
    | Inr t \<Rightarrow>
        (case t of (movies, directors, genres, m_director, m_genre) \<Rightarrow>
           length (rows movies) = 1 \<and> length (rows directors) = 1 \<and> length (rows genres) = 1 \<and>
           columns m_director = [''movie_id'', ''director_id''] \<and>
           map (\<lambda>ir. (snd ir ''movie_id'', snd ir ''director_id'')) (rows m_director) =
             [(IntV 0, IntV 0)] \<and>
           columns m_genre = [''movie_id'', ''genre_id''] \<and>
           map (\<lambda>ir. (snd ir ''movie_id'', snd ir ''genre_id'')) (rows m_genre) =
             [(IntV 0, IntV 0)]))"
  by code_simp


section \<open>Instances of the theorems\<close>

lemma create_visualizations_raises:
  "render ev df = Some e \<Longrightarrow> \<exists>e'. fst (create_visualizations ev df w) = Inl e'"
  by (simp add: create_visualizations_def except_print_raise_eq column_def)

lemma scenario_keys:
  "list_ex (\<lambda>m. genre m \<noteq> None) [scenario]" "list_ex (\<lambda>m. cast m \<noteq> None) [scenario]"
  "list_ex (\<lambda>m. year m \<noteq> None) [scenario]" "list_ex (\<lambda>m. rating m \<noteq> None) [scenario]"
  by (simp_all add: scenario_def)

theorem flattened_rows_are_cross_products_witness:
  "read_json (document [scenario]) ''dataset/movies.json'' = Inr [(''top_movies'', [scenario])] \<and>
   top_movies [(''top_movies'', [scenario])] = Inr [scenario] \<and>
   (\<exists>out. fst (load_and_preprocess_data (document [scenario]) ''dataset/movies.json'' world0) = Inr out \<and>
      length (rows out) = 4 \<and>
      map (\<lambda>ir. (snd ir ''genre'', snd ir ''cast'')) (rows out) =
        [(StrV ''Drama'', StrV ''X''), (StrV ''Drama'', StrV ''Y''),
         (StrV ''Crime'', StrV ''X''), (StrV ''Crime'', StrV ''Y'')])"
proof -
  from flattened_rows_are_cross_products [OF read_json_document scenario_keys, of "''dataset/movies.json''" world0]
  obtain out where
    a: "fst (load_and_preprocess_data (document [scenario]) ''dataset/movies.json'' world0) = Inr out"
    and b: "length (rows out) = (\<Sum>m\<leftarrow>[scenario]. exploded_count (genre m) * exploded_count (cast m))"
    and c: "map (\<lambda>ir. (snd ir ''genre'', snd ir ''cast'')) (rows out) =
      concat (map (\<lambda>m.
        List.product (map fill_cell (explode_cell (items_cell (genre m))))
          (map fill_cell (explode_cell (items_cell (cast m))))) [scenario])"
    by blast
  have b': "length (rows out) = 4"
    using b by (simp add: scenario_def exploded_count_def)
  have c': "map (\<lambda>ir. (snd ir ''genre'', snd ir ''cast'')) (rows out) =
        [(StrV ''Drama'', StrV ''X''), (StrV ''Drama'', StrV ''Y''),
         (StrV ''Crime'', StrV ''X''), (StrV ''Crime'', StrV ''Y'')]"
    using c by (simp add: scenario_def items_cell_def fill_cell_def)
  show ?thesis
    by (intro conjI exI [of _ out] read_json_document a b' c')
qed

lemma solo_labels_2:
  "preprocess [solo (Some 1994), solo None] = Inr df \<Longrightarrow> map fst (rows df) = [IntV 0, IntV 1]"
proof -
  have "(case preprocess [solo (Some 1994), solo None] of Inl e \<Rightarrow> False
         | Inr df \<Rightarrow> map fst (rows df) = [IntV 0, IntV 1])"
    by code_simp
  then show "preprocess [solo (Some 1994), solo None] = Inr df \<Longrightarrow> map fst (rows df) = [IntV 0, IntV 1]"
    by simp
qed

lemma solo_labels_3:
  "preprocess [solo (Some 1994), solo (Some 2005), solo (Some 1990)] = Inr df \<Longrightarrow>
     map fst (rows df) = [IntV 0, IntV 1, IntV 2]"
proof -
  have "(case preprocess [solo (Some 1994), solo (Some 2005), solo (Some 1990)] of Inl e \<Rightarrow> False
         | Inr df \<Rightarrow> map fst (rows df) = [IntV 0, IntV 1, IntV 2])"
    by code_simp
  then show "preprocess [solo (Some 1994), solo (Some 2005), solo (Some 1990)] = Inr df \<Longrightarrow>
     map fst (rows df) = [IntV 0, IntV 1, IntV 2]"
    by simp
qed

lemma solo_loads:
  "\<exists>out. fst (load_and_preprocess_data (document (solo (Some y) # ms)) p w) = Inr out"
proof -
  have "\<exists>df. flatten (json_normalize (solo (Some y) # ms)) = Inr df"
    by (rule flatten_json_normalize_returns) (simp_all add: solo_def scenario_def)
  then obtain df where "preprocess (solo (Some y) # ms) = Inr df"
    by (auto simp: preprocess_def)
  then show ?thesis
    unfolding load_and_preprocess_data_eq [OF read_json_document] by simp
qed


theorem decade_of_int64_year_column_witness:
  "\<exists>out df r0 r1 r2.
     fst (load_and_preprocess_data (document [solo (Some 1994), solo (Some 2005), solo (Some 1990)])
            ''dataset/movies.json'' world0) = Inr out \<and>
     list_all (\<lambda>m. year m \<noteq> None) [solo (Some 1994), solo (Some 2005), solo (Some 1990)] \<and>
     preprocess [solo (Some 1994), solo (Some 2005), solo (Some 1990)] = Inr df \<and>
     map snd (rows out) = map snd (rows df) \<and>
     (IntV 0, r0) \<in> set (rows df) \<and> r0 ''year'' = IntV 1994 \<and> r0 ''decade'' = StrV ''1990s'' \<and>
     (IntV 1, r1) \<in> set (rows df) \<and> r1 ''year'' = IntV 2005 \<and> r1 ''decade'' = StrV ''2000s'' \<and>
     (IntV 2, r2) \<in> set (rows df) \<and> r2 ''year'' = IntV 1990 \<and> r2 ''decade'' = StrV ''1990s''"
proof -
  let ?ms = "[solo (Some 1994), solo (Some 2005), solo (Some 1990)]"
  obtain out where
    o: "fst (load_and_preprocess_data (document ?ms) ''dataset/movies.json'' world0) = Inr out"
    using solo_loads by blast
  have al: "list_all (\<lambda>m. year m \<noteq> None) ?ms" by (simp add: solo_def)
  from decade_of_int64_year_column [OF read_json_document o al]
  obtain df where df: "preprocess ?ms = Inr df" and s: "map snd (rows out) = map snd (rows df)"
    and t: "\<And>k r y. k < length ?ms \<Longrightarrow> year (?ms ! k) = Some y \<Longrightarrow> - 9223372036854775800 \<le> y \<Longrightarrow>
         y < 2 ^ 63 \<Longrightarrow> (IntV (int k), r) \<in> set (rows df) \<Longrightarrow>
       r ''year'' = IntV y \<and> r ''decade'' = StrV (str_int (y div 10 * 10) @ ''s'')"
    by blast
  note lab = solo_labels_3 [OF df]
  have m0: "(IntV 0, snd (rows df ! 0)) \<in> set (rows df)"
    using labelled_row [OF lab, of 0] by simp
  have m1: "(IntV 1, snd (rows df ! 1)) \<in> set (rows df)"
    using labelled_row [OF lab, of 1] by simp
  have m2: "(IntV 2, snd (rows df ! 2)) \<in> set (rows df)"
    using labelled_row [OF lab, of 2] by simp
  have s0: "str_int (1994 div 10 * 10) @ ''s'' = ''1990s''" by code_simp
  have s1: "str_int (2005 div 10 * 10) @ ''s'' = ''2000s''" by code_simp
  have s2: "str_int (1990 div 10 * 10) @ ''s'' = ''1990s''" by code_simp
  have d0: "snd (rows df ! 0) ''year'' = IntV 1994 \<and> snd (rows df ! 0) ''decade'' = StrV ''1990s''"
    using t [of 0 1994 "snd (rows df ! 0)"] m0 s0 by (simp add: solo_def)
  have d1: "snd (rows df ! 1) ''year'' = IntV 2005 \<and> snd (rows df ! 1) ''decade'' = StrV ''2000s''"
    using t [of 1 2005 "snd (rows df ! 1)"] m1 s1 by (simp add: solo_def)
  have d2: "snd (rows df ! 2) ''year'' = IntV 1990 \<and> snd (rows df ! 2) ''decade'' = StrV ''1990s''"
    using t [of 2 1990 "snd (rows df ! 2)"] m2 s2 by (simp add: solo_def)
  show ?thesis
    by (intro exI [of _ out] exI [of _ df] exI [of _ "snd (rows df ! 0)"]
        exI [of _ "snd (rows df ! 1)"] exI [of _ "snd (rows df ! 2)"] conjI o al df s m0 m1 m2
        d0 [THEN conjunct1] d0 [THEN conjunct2] d1 [THEN conjunct1] d1 [THEN conjunct2]
        d2 [THEN conjunct1] d2 [THEN conjunct2])
qed

theorem visualization_failure_stops_the_run_witness:
  "\<exists>df w1 e.
     load_and_preprocess_data (library (Inr [(''top_movies'', [scenario])]) (Some ValueError))
       ''dataset/movies.json'' world0 = (Inr df, w1) \<and>
     fst (create_visualizations (library (Inr [(''top_movies'', [scenario])]) (Some ValueError)) df w1) =
       Inl e \<and>
     fst (main (library (Inr [(''top_movies'', [scenario])]) (Some ValueError)) world0) = Inr () \<and>
     calls (snd (main (library (Inr [(''top_movies'', [scenario])]) (Some ValueError)) world0)) =
       [Load, Visualize] \<and>
     schema (snd (main (library (Inr [(''top_movies'', [scenario])]) (Some ValueError)) world0)) = [] \<and>
     database (snd (main (library (Inr [(''top_movies'', [scenario])]) (Some ValueError)) world0)) = []"
proof -
  let ?ev = "library (Inr [(''top_movies'', [scenario])]) (Some ValueError)"
  have rj: "read_json ?ev ''dataset/movies.json'' = Inr [(''top_movies'', [scenario])]"
    by (simp add: library_def)
  obtain df0 where "preprocess [scenario] = Inr df0"
    using flatten_json_normalize_returns [OF scenario_keys] by (auto simp: preprocess_def)
  then have l: "load_and_preprocess_data ?ev ''dataset/movies.json'' world0 =
      (Inr (reset_index_drop df0), enter Load world0)"
    unfolding load_and_preprocess_data_eq [OF rj read_json_document(2)] by simp
  have "render ?ev (reset_index_drop df0) = Some ValueError"
    by (simp add: library_def)
  then obtain e where
    v: "fst (create_visualizations ?ev (reset_index_drop df0) (enter Load world0)) = Inl e"
    using create_visualizations_raises by blast
  from visualization_failure_stops_the_run [OF l v]
  have m: "fst (main ?ev world0) = Inr () \<and> calls (snd (main ?ev world0)) = [Load, Visualize] \<and>
    schema (snd (main ?ev world0)) = [] \<and> database (snd (main ?ev world0)) = []"
    by (simp add: world0_def)
  show ?thesis
    by (intro exI [of _ "reset_index_drop df0"] exI [of _ "enter Load world0"] exI [of _ e] conjI l v
        m [THEN conjunct1] m [THEN conjunct2, THEN conjunct1]
        m [THEN conjunct2, THEN conjunct2, THEN conjunct1]
        m [THEN conjunct2, THEN conjunct2, THEN conjunct2])
qed

theorem prepare_database_tables_raises_witness:
  "\<exists>out w1 m d g.
     load_and_preprocess_data (document [scenario]) ''dataset/movies.json'' world0 = (Inr out, w1) \<and>
     \<not> has_level (index out) ''director'' \<and> \<not> has_level (index out) ''id'' \<and>
     \<not> has_level (index out) ''id_y'' \<and>
     movies_table out = Inr m \<and> directors_table out = Inr d \<and> genres_table out = Inr g \<and>
     movie_director out d = Inl (KeyError [''director'']) \<and>
     fst (prepare_database_tables out w1) = Inl (KeyError [''director'']) \<and>
     (\<exists>ks. movie_genre out g = Inl (KeyError ks) \<and> ''id_y'' \<in> set ks)"
proof -
  have ev: "(case load_and_preprocess_data (document [scenario]) ''dataset/movies.json'' world0 of
      (Inl e, w) \<Rightarrow> False
    | (Inr out, w1) \<Rightarrow>
        (case movies_table out of Inl e \<Rightarrow> False | Inr m \<Rightarrow> True) \<and>
        (case directors_table out of Inl e \<Rightarrow> False | Inr d \<Rightarrow> True) \<and>
        (case genres_table out of Inl e \<Rightarrow> False | Inr g \<Rightarrow>
           (case select out [''title'', ''genre''] of Inl e \<Rightarrow> False | Inr d1 \<Rightarrow>
              (case reset_index d1 of Inl e \<Rightarrow> False | Inr d2 \<Rightarrow>
                 (case merge_left d2 g ''genre'' ''name'' of Inl e \<Rightarrow> False | Inr d3 \<Rightarrow> True)))))"
    by code_simp
  then obtain out w1 where
    l: "load_and_preprocess_data (document [scenario]) ''dataset/movies.json'' world0 = (Inr out, w1)"
    by (auto split: prod.splits sum.splits)
  from ev obtain m d g d1 d2 d3 where m: "movies_table out = Inr m"
    and d: "directors_table out = Inr d" and g: "genres_table out = Inr g"
    and d1: "select out [''title'', ''genre''] = Inr d1" and d2: "reset_index d1 = Inr d2"
    and d3: "merge_left d2 g ''genre'' ''name'' = Inr d3"
    unfolding l by (auto split: sum.splits)
  have ix: "index out = Index None" using l by (rule load_index)
  have h: "\<not> has_level (index out) ''director''" "\<not> has_level (index out) ''id''"
    "\<not> has_level (index out) ''id_y''"
    by (simp_all add: ix)
  note t = prepare_database_tables_raises [OF h(1), of w1]
  have a: "movie_director out d = Inl (KeyError [''director'']) \<and>
       fst (prepare_database_tables out w1) = Inl (KeyError [''director''])"
    using t [THEN conjunct2, THEN conjunct1] m d g by blast
  have "\<exists>ks. movie_genre out g = Inl (KeyError ks) \<and> ''id_y'' \<in> set ks"
    using t [THEN conjunct2, THEN conjunct2] h(2,3) g d1 d2 d3 by blast
  then obtain ks where b: "movie_genre out g = Inl (KeyError ks) \<and> ''id_y'' \<in> set ks" ..
  show ?thesis
    by (intro exI [of _ out] exI [of _ w1] exI [of _ m] exI [of _ d] exI [of _ g] exI [of _ ks]
        conjI l h m d g a [THEN conjunct1] a [THEN conjunct2] b [THEN conjunct1]
        b [THEN conjunct2])
qed


section \<open>The movies table\<close>

lemma first_seen_snoc:
  "first_seen seen key (xs @ [x]) =
     first_seen seen key xs @ (if key x \<in> set seen \<union> key ` set xs then [] else [x])"
  by (induction xs arbitrary: seen) auto

lemma first_seen_positions:
  "first_seen [] key xs =
     map (nth xs) (filter (\<lambda>n. key (xs ! n) \<notin> set (map key (take n xs))) [0..<length xs])"
proof (induction xs rule: rev_induct)
  case Nil
  show ?case by simp
next
  case (snoc x xs)
  let ?P = "\<lambda>n. key (xs ! n) \<notin> set (map key (take n xs))"
  let ?Q = "\<lambda>n. key ((xs @ [x]) ! n) \<notin> set (map key (take n (xs @ [x])))"
  have f: "filter ?Q [0..<length xs] = filter ?P [0..<length xs]"
    by (rule filter_cong) (simp_all add: nth_append)
  have m: "map (nth (xs @ [x])) (filter ?P [0..<length xs]) = map (nth xs) (filter ?P [0..<length xs])"
    by (rule map_cong) (simp_all add: nth_append)
  have q: "?Q (length xs) = (key x \<notin> key ` set xs)"
    by simp
  have "map (nth (xs @ [x])) (filter ?Q [0..<length (xs @ [x])]) =
        map (nth (xs @ [x])) (filter ?Q [0..<length xs] @ (if ?Q (length xs) then [length xs] else []))"
    by simp
  also have "\<dots> = map (nth (xs @ [x])) (filter ?P [0..<length xs]) @
                   (if key x \<notin> key ` set xs then [x] else [])"
    unfolding f q by simp
  also have "\<dots> = first_seen [] key xs @ (if key x \<notin> key ` set xs then [x] else [])"
    unfolding m snoc.IH ..
  also have "\<dots> = first_seen [] key (xs @ [x])"
    by (simp add: first_seen_snoc)
  finally show ?case ..
qed

lemma first_seen_keys:
  "distinct (map key (first_seen seen key xs)) \<and>
   set (map key (first_seen seen key xs)) = key ` set xs - set seen"
  by (induction xs arbitrary: seen) auto

lemma movies_table_eq:
  assumes "movies_table df = Inr mt" and "index df = Index None"
  shows "mt = rename
     \<lparr>columns = [''index'', ''title'', ''year'', ''rating'', ''synopsis''],
      rows = zip (range_index (length (first_seen [] movie_key (rows df))))
               (map (\<lambda>ir. (snd ir)(''index'' := fst ir)) (first_seen [] movie_key (rows df))),
      index = Index None\<rparr>
     ''index'' ''id''"
proof -
  from assms(1) obtain d1 d2 d3 where
    d1: "select df [''title'', ''year'', ''rating'', ''synopsis''] = Inr d1" and
    d2: "drop_duplicates d1 = Inr d2" and d3: "reset_index d2 = Inr d3" and
    mt: "mt = rename d3 ''index'' ''id''"
    unfolding movies_table_def and_then_eq_Inr by blast
  have e1: "d1 = df\<lparr>columns := [''title'', ''year'', ''rating'', ''synopsis'']\<rparr>"
    using d1 by (simp add: select_eq_Inr)
  have rv: "row_values d1 = movie_key"
    by (rule ext) (simp add: row_values_def movie_key_def e1)
  have e2: "d2 = df\<lparr>columns := [''title'', ''year'', ''rating'', ''synopsis''],
                   rows := first_seen [] movie_key (rows df)\<rparr>"
    using d2 unfolding drop_duplicates_def rv by (simp add: e1 split: if_splits)
  have ln: "level_names d2 = [''index'']"
    by (rule level_names_default) (simp_all add: e2 assms(2))
  have i2: "index d2 = Index None"
    by (simp add: e2 assms(2))
  have il: "insert_levels d2 = (\<lambda>ir. (snd ir)(''index'' := fst ir))"
    by (rule ext) (simp add: insert_levels_def ln level_values_def i2)
  have e3: "d3 = \<lparr>columns = [''index'', ''title'', ''year'', ''rating'', ''synopsis''],
      rows = zip (range_index (length (first_seen [] movie_key (rows df))))
               (map (\<lambda>ir. (snd ir)(''index'' := fst ir)) (first_seen [] movie_key (rows df))),
      index = Index None\<rparr>"
    using d3 unfolding reset_index_eq_Inr ln il by (simp add: e2)
  show ?thesis unfolding mt e3 ..
qed

lemma movies_table_rows:
  assumes "movies_table df = Inr mt" and "index df = Index None"
  shows "columns mt = [''id'', ''title'', ''year'', ''rating'', ''synopsis'']"
    and "map (\<lambda>ir. (snd ir ''id'', movie_key ir)) (rows mt) =
         map (\<lambda>ir. (fst ir, movie_key ir)) (first_seen [] movie_key (rows df))"
proof -
  note e = movies_table_eq [OF assms]
  show "columns mt = [''id'', ''title'', ''year'', ''rating'', ''synopsis'']"
    unfolding e by (simp add: rename_def)
  show "map (\<lambda>ir. (snd ir ''id'', movie_key ir)) (rows mt) =
         map (\<lambda>ir. (fst ir, movie_key ir)) (first_seen [] movie_key (rows df))"
    unfolding e by (rule nth_equalityI) (simp_all add: rename_def movie_key_def)
qed

text \<open>
  Claim C5, as amended. On a frame with the unnamed index, as the loader returns it,
  the movies table that lines 53 to 58 build has the columns
  \<open>id\<close>, \<open>title\<close>, \<open>year\<close>, \<open>rating\<close>, \<open>synopsis\<close>; its rows are, in order, the
  rows of the flattened table whose key no earlier row has, each with the index label of
  that row as its \<open>id\<close>; so every key of the flattened table appears exactly once. On a
  table labelled \<open>0, 1, ...\<close>, as the loader returns it, the ids are the positions of
  those first rows.
\<close>

theorem movies_table_keeps_first_rows:
  assumes "movies_table df = Inr mt" and "index df = Index None"
  shows "columns mt = [''id'', ''title'', ''year'', ''rating'', ''synopsis''] \<and>
    map (\<lambda>ir. (snd ir ''id'', movie_key ir)) (rows mt) =
      map (\<lambda>n. (fst (rows df ! n), movie_key (rows df ! n))) (first_rows (rows df)) \<and>
    distinct (map movie_key (rows mt)) \<and>
    set (map movie_key (rows mt)) = set (map movie_key (rows df)) \<and>
    (map fst (rows df) = range_index (length (rows df)) \<longrightarrow>
       map (\<lambda>ir. snd ir ''id'') (rows mt) = map (\<lambda>n. IntV (int n)) (first_rows (rows df)))"
proof -
  let ?kept = "first_seen [] movie_key (rows df)"
  note r = movies_table_rows [OF assms]
  have p: "?kept = map (nth (rows df)) (first_rows (rows df))"
    unfolding first_rows_def by (rule first_seen_positions)
  have a: "map (\<lambda>ir. (snd ir ''id'', movie_key ir)) (rows mt) =
      map (\<lambda>n. (fst (rows df ! n), movie_key (rows df ! n))) (first_rows (rows df))"
    unfolding r(2) p by (simp add: o_def)
  have k: "map movie_key (rows mt) = map movie_key ?kept"
  proof -
    have "map snd (map (\<lambda>ir. (snd ir ''id'', movie_key ir)) (rows mt)) =
          map snd (map (\<lambda>ir. (fst ir, movie_key ir)) ?kept)"
      by (simp only: r(2))
    then show ?thesis by (simp add: o_def)
  qed
  have b: "distinct (map movie_key (rows mt))"
    unfolding k using first_seen_keys [of movie_key "[]" "rows df"] by simp
  have c: "set (map movie_key (rows mt)) = set (map movie_key (rows df))"
    unfolding k using first_seen_keys [of movie_key "[]" "rows df"] by simp
  have d: "map (\<lambda>ir. snd ir ''id'') (rows mt) = map (\<lambda>n. IntV (int n)) (first_rows (rows df))"
    if l: "map fst (rows df) = range_index (length (rows df))"
  proof -
    have "map fst (map (\<lambda>ir. (snd ir ''id'', movie_key ir)) (rows mt)) =
          map fst (map (\<lambda>n. (fst (rows df ! n), movie_key (rows df ! n))) (first_rows (rows df)))"
      by (simp only: a)
    then have "map (\<lambda>ir. snd ir ''id'') (rows mt) = map (\<lambda>n. fst (rows df ! n)) (first_rows (rows df))"
      by (simp add: o_def)
    also have "\<dots> = map (\<lambda>n. IntV (int n)) (first_rows (rows df))"
    proof (rule map_cong [OF refl])
      fix n assume "n \<in> set (first_rows (rows df))"
      then have n: "n < length (rows df)" by (simp add: first_rows_def)
      then have "fst (rows df ! n) = map fst (rows df) ! n" by simp
      also have "\<dots> = IntV (int n)" unfolding l using n by simp
      finally show "fst (rows df ! n) = IntV (int n)" .
    qed
    finally show ?thesis .
  qed
  show ?thesis using r(1) a b c d by blast
qed

text \<open>
  Claim C5 as stated fails: two movies of four rows each get the ids 0 and 4.
\<close>

theorem movie_ids_are_row_labels_counterexample:
  "(case fst (load_and_preprocess_data (document [scenario, scenario\<lparr>title := Some ''B''\<rparr>])
               ''dataset/movies.json'' world0) of
      Inl e \<Rightarrow> False
    | Inr out \<Rightarrow>
        (case movies_table out of
           Inl e \<Rightarrow> False
         | Inr mt \<Rightarrow>
             map (\<lambda>ir. (snd ir ''id'', snd ir ''title'')) (rows mt) =
               [(IntV 0, StrV ''A''), (IntV 4, StrV ''B'')]))"
  by code_simp

lemma labels_reset_index_drop:
  "map fst (rows (reset_index_drop df)) = range_index (length (rows (reset_index_drop df)))"
  by (simp add: reset_index_drop_def)

theorem movies_table_keeps_first_rows_witness:
  "\<exists>out mt.
     fst (load_and_preprocess_data (document [scenario, scenario\<lparr>title := Some ''B''\<rparr>])
            ''dataset/movies.json'' world0) = Inr out \<and>
     movies_table out = Inr mt \<and> index out = Index None \<and>
     map fst (rows out) = range_index (length (rows out)) \<and>
     first_rows (rows out) = [0, 4] \<and>
     columns mt = [''id'', ''title'', ''year'', ''rating'', ''synopsis''] \<and>
     map (\<lambda>ir. snd ir ''id'') (rows mt) = [IntV 0, IntV 4] \<and>
     distinct (map movie_key (rows mt))"
proof -
  let ?ms = "[scenario, scenario\<lparr>title := Some ''B''\<rparr>]"
  have ev: "(case fst (load_and_preprocess_data (document ?ms) ''dataset/movies.json'' world0) of
      Inl e \<Rightarrow> False
    | Inr out \<Rightarrow>
        (case movies_table out of Inl e \<Rightarrow> False | Inr mt \<Rightarrow> True) \<and>
        first_rows (rows out) = [0, 4])"
    by code_simp
  then obtain out where
    o: "fst (load_and_preprocess_data (document ?ms) ''dataset/movies.json'' world0) = Inr out"
    by (cases "fst (load_and_preprocess_data (document ?ms) ''dataset/movies.json'' world0)") simp_all
  from ev have f: "first_rows (rows out) = [0, 4]"
    and "case movies_table out of Inl e \<Rightarrow> False | Inr mt \<Rightarrow> True"
    unfolding o by simp_all
  then obtain mt where mt: "movies_table out = Inr mt"
    by (cases "movies_table out") simp_all
  from load_returns_preprocess [OF read_json_document o]
  obtain df where out: "out = reset_index_drop df" by blast
  then have l: "map fst (rows out) = range_index (length (rows out))"
    by (simp only: labels_reset_index_drop)
  have ix: "index out = Index None"
    by (simp add: out reset_index_drop_def)
  note t = movies_table_keeps_first_rows [OF mt ix]
  have c: "columns mt = [''id'', ''title'', ''year'', ''rating'', ''synopsis'']"
    by (rule t [THEN conjunct1])
  have d: "distinct (map movie_key (rows mt))"
    by (rule t [THEN conjunct2, THEN conjunct2, THEN conjunct1])
  have "map (\<lambda>ir. snd ir ''id'') (rows mt) = map (\<lambda>n. IntV (int n)) (first_rows (rows out))"
    by (rule t [THEN conjunct2, THEN conjunct2, THEN conjunct2, THEN conjunct2, rule_format, OF l])
  then have i: "map (\<lambda>ir. snd ir ''id'') (rows mt) = [IntV 0, IntV 4]"
    unfolding f by simp
  show ?thesis
    by (intro exI [of _ out] exI [of _ mt] conjI o mt ix l f c i d)
qed

end
